theory Spec2Isabelle
  imports Main "HOL-Library.Word" "HOL-Library.Char_ord" "HOL-Library.List_Lexorder"
begin

section \<open>Paths\<close>

text \<open>
  \<open>os.path.join\<close> and \<open>os.path.basename\<close> of the POSIX path module, on two arguments:
  an absolute second argument replaces the first, an empty first argument or one that ends
  in a slash takes no separator.
\<close>

definition os_path_join :: "string \<Rightarrow> string \<Rightarrow> string" where
  "os_path_join a b =
     (if b \<noteq> [] \<and> hd b = CHR ''/'' then b
      else if a = [] \<or> last a = CHR ''/'' then a @ b
      else a @ ''/'' @ b)"

definition os_path_basename :: "string \<Rightarrow> string" where
  "os_path_basename p = rev (takeWhile (\<lambda>c. c \<noteq> CHR ''/'') (rev p))"

text \<open>
  The file system resolves a path segment by segment; empty segments (doubled or trailing
  slashes) do not count.
\<close>

fun split_acc :: "string \<Rightarrow> string \<Rightarrow> string list" where
  "split_acc [] cur = (if cur = [] then [] else [rev cur])"
| "split_acc (c # cs) cur =
     (if c = CHR ''/'' then (if cur = [] then [] else [rev cur]) @ split_acc cs []
      else split_acc cs (c # cur))"

definition split_path :: "string \<Rightarrow> string list" where
  "split_path p = split_acc p []"

section \<open>Objects of the store\<close>

text \<open>
  The object store is append-only and content addressed: an object id names one object
  and never changes its meaning. The model therefore lets an id be the object it names, so
  that \<open>repository[oid]\<close> is the object itself, a tree entry carries its blob or subtree,
  and a commit carries its parent commits. \<open>commit.hex\<close> is the commit.
\<close>

datatype obj = Blob string | Tree "tree_entry list"
and tree_entry = TreeEntry (entry_name: string) (entry_oid: obj)

text \<open>\<open>pygit2.Signature(name, email)\<close> stamps the current time.\<close>

record signature =
  sig_name :: string
  sig_email :: string
  sig_time :: int

datatype commit =
  Commit (commit_tree: "tree_entry list") (commit_author: signature)
         (commit_committer: signature) (commit_message: string)
         (commit_parents: "commit list")

text \<open>A branch object is a snapshot of a reference: its name and the target it had when
  it was looked up, with the repository it belongs to.\<close>

record branch =
  branch_repo :: string
  branch_name :: string
  target :: commit

text \<open>
  A repository on disk: its local branches, the branch \<open>HEAD\<close> points to, and the names of
  its linked worktrees. A path of the storage area holds a repository or a plain directory.
\<close>

record repository =
  branches :: "string \<rightharpoonup> commit"
  head :: string
  worktrees :: "string list"

datatype dirstate = PlainDir | Repo repository

section \<open>Files of a sandbox\<close>

datatype fsnode = File string | Dir "fsentry list"
and fsentry = FsEntry (fs_name: string) (fs_node: fsnode)

fun fs_find :: "fsentry list \<Rightarrow> string \<Rightarrow> fsnode option" where
  "fs_find [] n = None"
| "fs_find (FsEntry m x # es) n = (if m = n then Some x else fs_find es n)"

fun fs_get :: "fsnode \<Rightarrow> string list \<Rightarrow> fsnode option" where
  "fs_get x [] = Some x"
| "fs_get (File b) (s # ss) = None"
| "fs_get (Dir es) (s # ss) = (case fs_find es s of None \<Rightarrow> None | Some y \<Rightarrow> fs_get y ss)"

fun fs_set1 :: "fsentry list \<Rightarrow> string \<Rightarrow> fsnode \<Rightarrow> fsentry list" where
  "fs_set1 [] n x = [FsEntry n x]"
| "fs_set1 (FsEntry m y # es) n x =
     (if m = n then FsEntry n x # es else FsEntry m y # fs_set1 es n x)"

text \<open>\<open>fs_put\<close> writes a node under an existing parent directory; \<open>fs_del\<close> removes an
  existing node. Both return \<open>None\<close> where the operating system would refuse.\<close>

fun fs_put :: "fsnode \<Rightarrow> string list \<Rightarrow> fsnode \<Rightarrow> fsnode option" where
  "fs_put r [] x = None"
| "fs_put (File b) (s # ss) x = None"
| "fs_put (Dir es) [s] x = Some (Dir (fs_set1 es s x))"
| "fs_put (Dir es) (s # ss) x =
     (case fs_find es s of
        None \<Rightarrow> None
      | Some y \<Rightarrow> (case fs_put y ss x of
                     None \<Rightarrow> None
                   | Some y' \<Rightarrow> Some (Dir (fs_set1 es s y'))))"

fun fs_del :: "fsnode \<Rightarrow> string list \<Rightarrow> fsnode option" where
  "fs_del r [] = None"
| "fs_del (File b) (s # ss) = None"
| "fs_del (Dir es) [s] =
     (case fs_find es s of
        None \<Rightarrow> None
      | Some y \<Rightarrow> Some (Dir (filter (\<lambda>e. fs_name e \<noteq> s) es)))"
| "fs_del (Dir es) (s # ss) =
     (case fs_find es s of
        None \<Rightarrow> None
      | Some y \<Rightarrow> (case fs_del y ss of
                     None \<Rightarrow> None
                   | Some y' \<Rightarrow> Some (Dir (fs_set1 es s y'))))"

text \<open>Checking a tree out into a directory, and the tree of a directory's content: git
  tracks files only, so a directory without files below it leaves no entry, and the
  entries of a tree are kept in the order of their names.\<close>

fun checkout :: "tree_entry list \<Rightarrow> fsentry list" where
  "checkout [] = []"
| "checkout (TreeEntry n (Blob b) # es) = FsEntry n (File b) # checkout es"
| "checkout (TreeEntry n (Tree t) # es) = FsEntry n (Dir (checkout t)) # checkout es"

fun index_entries :: "fsentry list \<Rightarrow> tree_entry list" where
  "index_entries [] = []"
| "index_entries (FsEntry n (File b) # es) =
     insort_key entry_name (TreeEntry n (Blob b)) (index_entries es)"
| "index_entries (FsEntry n (Dir ds) # es) =
     (if index_entries ds = [] then index_entries es
      else insort_key entry_name (TreeEntry n (Tree (index_entries ds))) (index_entries es))"

fun has_dotgit :: "fsentry list \<Rightarrow> bool" where
  "has_dotgit [] = False"
| "has_dotgit (FsEntry n (File b) # es) = (n = ''.git'' \<or> has_dotgit es)"
| "has_dotgit (FsEntry n (Dir ds) # es) = (n = ''.git'' \<or> has_dotgit ds \<or> has_dotgit es)"

section \<open>Errors and the state of the process\<close>

text \<open>
  The primitives of the operating system and of the object-store library that can fail for
  reasons outside the program (an I/O error, a full disk, a permission). Which of them fail
  is part of the environment: \<open>faults\<close> below.
\<close>

datatype step =
    MkdTemp | MakeDirs | Unlink | Rmtree | Move
  | InitRepository | OpenRepository | TreeBuilderWrite | CreateBranch
  | AddWorktree | Prune | BranchDelete
  | Extract | IndexRead | IndexAddAll | IndexWrite | WriteTree
  | CreateCommit | SetTarget | VersionUpdate

datatype error =
    Fault step
  | AssertionError
  | KeyError string
  | IndexError
  | AttributeError
  | FileNotFoundError string
  | FileExistsError string
  | NotADirectoryError string
  | ShutilError string
  | GitError string
  | ExtractionError string

text \<open>An uploaded file, as the extraction collaborator reads it: unreadable as an
  archive, or its logical contents.\<close>

datatype archive = Corrupt | Archive "fsentry list"

text \<open>
  The state the module reads and writes. \<open>language\<close> is the active translation of
  \<open>django.utils.translation\<close>; \<open>search_path\<close> the global configuration path of the
  object-store library; \<open>disk\<close> the storage area, by path; \<open>tmp\<close> the temporary directories
  under \<open>settings.TMP_PATH\<close>, each with the entries it holds, numbered in the order
  \<open>mkdtemp\<close> made them; \<open>uuids\<close> the values \<open>uuid.uuid4()\<close> returns, in order; \<open>clock\<close> the
  time; \<open>uploads\<close> the files that can be extracted, by path; \<open>git_hash\<close> and
  \<open>source_git_hash\<close> the columns of the version table, by version id. The settings and
  \<open>id_to_path\<close> (of \<open>olympia.files.utils\<close>) are parameters.
\<close>

record world =
  language :: string
  search_path :: string
  disk :: "string \<rightharpoonup> dirstate"
  tmp :: "nat \<rightharpoonup> fsentry list"
  tmp_next :: nat
  uuids :: "nat \<Rightarrow> 128 word"
  uuid_next :: nat
  clock :: int
  uploads :: "string \<rightharpoonup> archive"
  git_hash :: "nat \<rightharpoonup> commit"
  source_git_hash :: "nat \<rightharpoonup> commit"
  faults :: "step \<Rightarrow> bool"
  settings_ROOT :: string
  settings_GIT_FILE_STORAGE_PATH :: string
  id_to_path :: "nat \<Rightarrow> string"

text \<open>A statement either returns a value or raises, and leaves a state behind in both
  cases.\<close>

type_synonym 'a prog = "world \<Rightarrow> (error + 'a) \<times> world"

definition ret :: "'a \<Rightarrow> 'a prog" where
  "ret x = (\<lambda>w. (Inr x, w))"

definition raise :: "error \<Rightarrow> 'a prog" where
  "raise e = (\<lambda>w. (Inl e, w))"

definition bind :: "'a prog \<Rightarrow> ('a \<Rightarrow> 'b prog) \<Rightarrow> 'b prog" where
  "bind m f = (\<lambda>w. case m w of (Inl e, w') \<Rightarrow> (Inl e, w') | (Inr x, w') \<Rightarrow> f x w')"

text \<open>\<open>try: body finally: fin\<close>, and so the \<open>with\<close> statement once the context is entered:
  \<open>fin\<close> runs on every exit of \<open>body\<close>; an error raised by \<open>fin\<close> replaces the outcome of
  \<open>body\<close>.\<close>

definition try_finally :: "'a prog \<Rightarrow> unit prog \<Rightarrow> 'a prog" where
  "try_finally body fin =
     (\<lambda>w. case body w of
            (r, w1) \<Rightarrow> (case fin w1 of (Inl e, w2) \<Rightarrow> (Inl e, w2) | (Inr u, w2) \<Rightarrow> (r, w2)))"

definition prim :: "step \<Rightarrow> unit prog" where
  "prim s = (\<lambda>w. if faults w s then (Inl (Fault s), w) else (Inr (), w))"

definition uuid4 :: "(128 word) prog" where
  "uuid4 = (\<lambda>w. (Inr (uuids w (uuid_next w)), w\<lparr>uuid_next := Suc (uuid_next w)\<rparr>))"

definition hex_digit :: "nat \<Rightarrow> char" where
  "hex_digit n = ''0123456789abcdef'' ! n"

text \<open>\<open>UUID.hex\<close>: the 32 hexadecimal digits of the 128-bit value.\<close>

definition uuid_hex :: "128 word \<Rightarrow> string" where
  "uuid_hex u = map (\<lambda>i. hex_digit (unat (and (drop_bit (4 * (31 - i)) u) 15))) [0..<32]"

function str_nat :: "nat \<Rightarrow> string" where
  "str_nat n = (if n < 10 then [hex_digit n] else str_nat (n div 10) @ [hex_digit (n mod 10)])"
  by pat_completeness auto
termination
  by (relation "measure id") auto

declare str_nat.simps [simp del]

section \<open>The temporary area\<close>

text \<open>
  A path of the temporary area is given by the number of the temporary directory that
  \<open>mkdtemp\<close> made and the path below it: \<open>os.path.join(self.temp_directory, p)\<close> is the
  pair of \<open>temp_directory\<close> and \<open>p\<close>.
\<close>

definition mkdtemp :: "nat prog" where
  "mkdtemp =
     bind (prim MkdTemp) (\<lambda>u w.
       (Inr (tmp_next w), w\<lparr>tmp := (tmp w)(tmp_next w \<mapsto> []), tmp_next := Suc (tmp_next w)\<rparr>))"

definition tmp_root :: "nat \<Rightarrow> fsnode prog" where
  "tmp_root td = (\<lambda>w. case tmp w td of
                         None \<Rightarrow> (Inl (FileNotFoundError []), w)
                       | Some es \<Rightarrow> (Inr (Dir es), w))"

definition tmp_store :: "nat \<Rightarrow> fsnode \<Rightarrow> unit prog" where
  "tmp_store td root =
     (case root of
        File b \<Rightarrow> raise (NotADirectoryError [])
      | Dir es \<Rightarrow> (\<lambda>w. (Inr (), w\<lparr>tmp := (tmp w)(td \<mapsto> es)\<rparr>)))"

definition os_path_isfile :: "nat \<Rightarrow> string \<Rightarrow> bool prog" where
  "os_path_isfile td p =
     (\<lambda>w. (Inr (case tmp w td of
                  None \<Rightarrow> False
                | Some es \<Rightarrow> (case fs_get (Dir es) (split_path p) of
                               Some (File b) \<Rightarrow> True
                             | _ \<Rightarrow> False)), w))"

text \<open>\<open>os.unlink\<close> and \<open>shutil.rmtree\<close> of a path below a temporary directory; both raise
  when the path does not exist.\<close>

definition remove_path :: "step \<Rightarrow> nat \<Rightarrow> string \<Rightarrow> unit prog" where
  "remove_path s td p =
     bind (prim s) (\<lambda>u.
     bind (tmp_root td) (\<lambda>root.
       case fs_del root (split_path p) of
         None \<Rightarrow> raise (FileNotFoundError p)
       | Some root' \<Rightarrow> tmp_store td root'))"

definition os_unlink :: "nat \<Rightarrow> string \<Rightarrow> unit prog" where
  "os_unlink td p = remove_path Unlink td p"

definition shutil_rmtree :: "nat \<Rightarrow> string \<Rightarrow> unit prog" where
  "shutil_rmtree td p = remove_path Rmtree td p"

text \<open>\<open>shutil.rmtree(self.temp_directory)\<close>: the temporary directory itself.\<close>

definition shutil_rmtree_temp :: "nat \<Rightarrow> unit prog" where
  "shutil_rmtree_temp td =
     bind (prim Rmtree) (\<lambda>u w.
       case tmp w td of
         None \<Rightarrow> (Inl (FileNotFoundError []), w)
       | Some es \<Rightarrow> (Inr (), w\<lparr>tmp := (tmp w)(td := None)\<rparr>))"

text \<open>\<open>os.makedirs\<close> of a path whose parent exists; it raises when the path exists.\<close>

definition os_makedirs :: "nat \<Rightarrow> string \<Rightarrow> unit prog" where
  "os_makedirs td p =
     bind (prim MakeDirs) (\<lambda>u.
     bind (tmp_root td) (\<lambda>root.
       case fs_get root (split_path p) of
         Some x \<Rightarrow> raise (FileExistsError p)
       | None \<Rightarrow> (case fs_put root (split_path p) (Dir []) of
                    None \<Rightarrow> raise (FileNotFoundError p)
                  | Some root' \<Rightarrow> tmp_store td root')))"

text \<open>
  \<open>shutil.move(src, dst)\<close>: a missing source raises; an existing directory \<open>dst\<close> receives
  the source under its own base name, unless that name is taken; a file is replaced by a
  file and refuses a directory.
\<close>

definition shutil_move :: "nat \<Rightarrow> string \<Rightarrow> string \<Rightarrow> unit prog" where
  "shutil_move td src dst =
     bind (prim Move) (\<lambda>u.
     bind (tmp_root td) (\<lambda>root.
       case fs_get root (split_path src) of
         None \<Rightarrow> raise (FileNotFoundError src)
       | Some node \<Rightarrow>
           (case fs_get root (split_path dst) of
              Some (Dir ds) \<Rightarrow>
                (let real_dst = os_path_join dst (os_path_basename src) in
                 if fs_get root (split_path real_dst) \<noteq> None then raise (ShutilError real_dst)
                 else (case fs_del root (split_path src) of
                         None \<Rightarrow> raise (FileNotFoundError src)
                       | Some root1 \<Rightarrow>
                           (case fs_put root1 (split_path real_dst) node of
                              None \<Rightarrow> raise (FileNotFoundError real_dst)
                            | Some root2 \<Rightarrow> tmp_store td root2)))
            | Some (File b) \<Rightarrow>
                (case node of
                   Dir ns \<Rightarrow> raise (NotADirectoryError dst)
                 | File c \<Rightarrow>
                     (case fs_del root (split_path src) of
                        None \<Rightarrow> raise (FileNotFoundError src)
                      | Some root1 \<Rightarrow>
                          (case fs_put root1 (split_path dst) node of
                             None \<Rightarrow> raise (FileNotFoundError dst)
                           | Some root2 \<Rightarrow> tmp_store td root2)))
            | None \<Rightarrow>
                (case fs_del root (split_path src) of
                   None \<Rightarrow> raise (FileNotFoundError src)
                 | Some root1 \<Rightarrow>
                     (case fs_put root1 (split_path dst) node of
                        None \<Rightarrow> raise (FileNotFoundError dst)
                      | Some root2 \<Rightarrow> tmp_store td root2)))))"

subsection \<open>The collaborators of \<open>olympia.files.utils\<close>\<close>

text \<open>
  Modelled from the spec: \<open>extract_extension_to_dest\<close> is not part of the sources at hand.
  "Given a source archive path and a destination directory, populates the directory with
  the archive's logical contents, fails with an extraction error kind on malformed
  archives."
\<close>

definition extract_extension_to_dest :: "string \<Rightarrow> nat \<Rightarrow> string \<Rightarrow> unit prog" where
  "extract_extension_to_dest source td dest =
     bind (prim Extract) (\<lambda>u w.
       case uploads w source of
         None \<Rightarrow> (Inl (FileNotFoundError source), w)
       | Some Corrupt \<Rightarrow> (Inl (ExtractionError source), w)
       | Some (Archive content) \<Rightarrow>
           bind (tmp_root td) (\<lambda>root.
             case fs_get root (split_path dest) of
               Some (Dir ds) \<Rightarrow>
                 (case fs_put root (split_path dest) (Dir content) of
                    None \<Rightarrow> raise (FileNotFoundError dest)
                  | Some root' \<Rightarrow> tmp_store td root')
             | _ \<Rightarrow> raise (FileNotFoundError dest)) w)"

text \<open>
  Modelled from the spec: \<open>get_all_files\<close> is not part of the sources at hand. "Recursive
  filesystem enumeration: given a root directory, returns all file paths relative to a
  base": every path below \<open>folder\<close>, directories included, a directory before what it
  contains; the length of \<open>strip_prefix\<close> and one separator are cut off each path and
  \<open>prefix\<close> is joined in front.
\<close>

fun walk :: "string \<Rightarrow> fsentry list \<Rightarrow> string list" where
  "walk p [] = []"
| "walk p (FsEntry n (File b) # es) = os_path_join p n # walk p es"
| "walk p (FsEntry n (Dir ds) # es) =
     os_path_join p n # walk (os_path_join p n) ds @ walk p es"

definition get_all_files :: "nat \<Rightarrow> string \<Rightarrow> string \<Rightarrow> string \<Rightarrow> (string list) prog" where
  "get_all_files td folder strip_prefix prefix =
     bind (tmp_root td) (\<lambda>root.
       case fs_get root (split_path folder) of
         Some (Dir es) \<Rightarrow>
           ret (map (\<lambda>fname. os_path_join prefix (drop (length strip_prefix + 1) fname))
                    (walk folder es))
       | _ \<Rightarrow> raise (FileNotFoundError folder))"

section \<open>The object-store library\<close>

definition get_repo :: "string \<Rightarrow> repository prog" where
  "get_repo h = (\<lambda>w. case disk w h of
                       Some (Repo r) \<Rightarrow> (Inr r, w)
                     | _ \<Rightarrow> (Inl (GitError h), w))"

definition put_repo :: "string \<Rightarrow> repository \<Rightarrow> unit prog" where
  "put_repo h r = (\<lambda>w. (Inr (), w\<lparr>disk := (disk w)(h \<mapsto> Repo r)\<rparr>))"

text \<open>\<open>pygit2.init_repository(path, bare=False)\<close>: an empty store whose \<open>HEAD\<close> names the
  branch \<open>master\<close>, which does not exist yet.\<close>

definition init_repository :: "string \<Rightarrow> string prog" where
  "init_repository p =
     bind (prim InitRepository) (\<lambda>u.
     bind (put_repo p \<lparr>branches = Map.empty, head = ''master'', worktrees = []\<rparr>) (\<lambda>u.
       ret p))"

text \<open>\<open>pygit2.Repository(path)\<close>: a handle to the repository at the path.\<close>

definition pygit2_Repository :: "string \<Rightarrow> string prog" where
  "pygit2_Repository p =
     bind (prim OpenRepository) (\<lambda>u.
     bind (get_repo p) (\<lambda>r. ret p))"

definition treebuilder_write :: "string \<Rightarrow> (tree_entry list) prog" where
  "treebuilder_write h =
     bind (prim TreeBuilderWrite) (\<lambda>u.
     bind (get_repo h) (\<lambda>r. ret []))"

text \<open>
  \<open>create_commit(ref, author, committer, message, tree, parents)\<close>. Without a reference
  name the commit object is written and nothing points to it. With \<open>HEAD\<close> the branch that
  \<open>HEAD\<close> names is moved to the commit; the library insists that the branch's tip is the
  first parent. This module passes no other reference name.
\<close>

definition create_commit ::
  "string \<Rightarrow> string option \<Rightarrow> signature \<Rightarrow> signature \<Rightarrow> string \<Rightarrow> tree_entry list
     \<Rightarrow> commit list \<Rightarrow> commit prog" where
  "create_commit h ref author committer message tree parents =
     bind (prim CreateCommit) (\<lambda>u.
     bind (get_repo h) (\<lambda>r.
       case ref of
         None \<Rightarrow> ret (Commit tree author committer message parents)
       | Some rn \<Rightarrow>
           if rn = ''HEAD'' \<and> branches r (head r) = (case parents of [] \<Rightarrow> None | p # ps \<Rightarrow> Some p)
           then bind (put_repo h (r\<lparr>branches := (branches r)(head r \<mapsto>
                                      Commit tree author committer message parents)\<rparr>)) (\<lambda>u.
                  ret (Commit tree author committer message parents))
           else raise (GitError rn)))"

definition branches_get :: "string \<Rightarrow> string \<Rightarrow> (branch option) prog" where
  "branches_get h n =
     bind (get_repo h) (\<lambda>r.
       ret (case branches r n of
              None \<Rightarrow> None
            | Some c \<Rightarrow> Some \<lparr>branch_repo = h, branch_name = n, target = c\<rparr>))"

definition head_peel :: "string \<Rightarrow> commit prog" where
  "head_peel h =
     bind (get_repo h) (\<lambda>r.
       case branches r (head r) of
         None \<Rightarrow> raise (GitError ''HEAD'')
       | Some c \<Rightarrow> ret c)"

definition create_branch :: "string \<Rightarrow> string \<Rightarrow> commit \<Rightarrow> branch prog" where
  "create_branch h n c =
     bind (prim CreateBranch) (\<lambda>u.
     bind (get_repo h) (\<lambda>r.
       if branches r n \<noteq> None then raise (GitError n)
       else bind (put_repo h (r\<lparr>branches := (branches r)(n \<mapsto> c)\<rparr>)) (\<lambda>u.
              ret \<lparr>branch_repo = h, branch_name = n, target = c\<rparr>)))"

definition set_target :: "branch \<Rightarrow> commit \<Rightarrow> unit prog" where
  "set_target b c =
     bind (prim SetTarget) (\<lambda>u.
     bind (get_repo (branch_repo b)) (\<lambda>r.
       if branches r (branch_name b) = None then raise (GitError (branch_name b))
       else put_repo (branch_repo b) (r\<lparr>branches := (branches r)(branch_name b \<mapsto> c)\<rparr>)))"

text \<open>
  \<open>add_worktree(name, path)\<close>: a new branch \<open>name\<close> at the commit of \<open>HEAD\<close>, a worktree
  linked under that name, and at \<open>path\<close> a new directory with the link file and the
  files of that commit. The name and the path must be free.
\<close>

definition add_worktree :: "string \<Rightarrow> string \<Rightarrow> nat \<Rightarrow> string \<Rightarrow> string prog" where
  "add_worktree h n td p =
     bind (prim AddWorktree) (\<lambda>u.
     bind (get_repo h) (\<lambda>r.
       case branches r (head r) of
         None \<Rightarrow> raise (GitError ''HEAD'')
       | Some c \<Rightarrow>
           if branches r n \<noteq> None \<or> n \<in> set (worktrees r) then raise (GitError n)
           else
             bind (tmp_root td) (\<lambda>root.
               case fs_get root (split_path p) of
                 Some x \<Rightarrow> raise (FileExistsError p)
               | None \<Rightarrow>
                   (case fs_put root (split_path p)
                           (Dir (FsEntry ''.git'' (File n) # checkout (commit_tree c))) of
                      None \<Rightarrow> raise (FileNotFoundError p)
                    | Some root' \<Rightarrow>
                        bind (tmp_store td root') (\<lambda>u.
                        bind (put_repo h (r\<lparr>branches := (branches r)(n \<mapsto> c),
                                            worktrees := n # worktrees r\<rparr>)) (\<lambda>u.
                          ret n))))))"

definition worktree_prune :: "string \<Rightarrow> string \<Rightarrow> unit prog" where
  "worktree_prune h n =
     bind (prim Prune) (\<lambda>u.
     bind (get_repo h) (\<lambda>r.
       put_repo h (r\<lparr>worktrees := removeAll n (worktrees r)\<rparr>)))"

text \<open>\<open>lookup_branch(name).delete()\<close>: \<open>lookup_branch\<close> gives \<open>None\<close> for a name that is
  no branch; a branch that a linked worktree has checked out is not deleted.\<close>

definition lookup_branch_delete :: "string \<Rightarrow> string \<Rightarrow> unit prog" where
  "lookup_branch_delete h n =
     bind (get_repo h) (\<lambda>r.
       case branches r n of
         None \<Rightarrow> raise AttributeError
       | Some c \<Rightarrow>
           bind (prim BranchDelete) (\<lambda>u.
             if n \<in> set (worktrees r) \<or> n = head r then raise (GitError n)
             else put_repo h (r\<lparr>branches := (branches r)(n := None)\<rparr>)))"

text \<open>
  The index of a worktree. \<open>index.add_all()\<close> stages the whole working directory, so the
  index then holds the tree of the directory's content; the link file of the worktree is
  not content, and git refuses a path with a segment \<open>.git\<close>.
\<close>

definition index_add_all :: "nat \<Rightarrow> string \<Rightarrow> (tree_entry list) prog" where
  "index_add_all td p =
     bind (prim IndexAddAll) (\<lambda>u.
     bind (tmp_root td) (\<lambda>root.
       case fs_get root (split_path p) of
         Some (Dir es) \<Rightarrow>
           if has_dotgit (filter (\<lambda>e. fs_name e \<noteq> ''.git'') es) then raise (GitError ''.git'')
           else ret (index_entries (filter (\<lambda>e. fs_name e \<noteq> ''.git'') es))
       | _ \<Rightarrow> raise (FileNotFoundError p)))"

definition index_write_tree :: "tree_entry list \<Rightarrow> (tree_entry list) prog" where
  "index_write_tree index = bind (prim WriteTree) (\<lambda>u. ret index)"

section \<open>The module \<open>olympia.lib.git\<close>\<close>

definition EXTRACTED_PREFIX :: string where
  "EXTRACTED_PREFIX = ''extracted''"

text \<open>The release channels of \<open>olympia.amo\<close> (constants of that package) and the branch
  of each.\<close>

definition RELEASE_CHANNEL_UNLISTED :: nat where
  "RELEASE_CHANNEL_UNLISTED = 1"

definition RELEASE_CHANNEL_LISTED :: nat where
  "RELEASE_CHANNEL_LISTED = 2"

definition BRANCHES :: "(nat \<times> string) list" where
  "BRANCHES = [(RELEASE_CHANNEL_LISTED, ''listed''), (RELEASE_CHANNEL_UNLISTED, ''unlisted'')]"

subsection \<open>\<open>TemporaryWorktree\<close>\<close>

record TemporaryWorktree =
  wt_git_repository :: string
  wt_name :: string
  temp_directory :: nat
  wt_path :: string
  extraction_target_path :: string
  wt_obj :: "string option"
  wt_repo :: "string option"

definition TemporaryWorktree_init :: "string \<Rightarrow> TemporaryWorktree prog" where
  "TemporaryWorktree_init repository =
     bind uuid4 (\<lambda>u.
     bind mkdtemp (\<lambda>td.
       ret \<lparr>wt_git_repository = repository,
            wt_name = uuid_hex u,
            temp_directory = td,
            wt_path = uuid_hex u,
            extraction_target_path = os_path_join (uuid_hex u) EXTRACTED_PREFIX,
            wt_obj = None,
            wt_repo = None\<rparr>))"

text \<open>The tree of the commit at the head of the worktree's repository, which is the
  branch \<open>add_worktree\<close> made.\<close>

definition worktree_head_tree :: "string \<Rightarrow> string \<Rightarrow> (tree_entry list) prog" where
  "worktree_head_tree h n =
     bind (get_repo h) (\<lambda>r.
       case branches r n of
         None \<Rightarrow> raise (GitError n)
       | Some c \<Rightarrow> ret (commit_tree c))"

fun clean_workdir :: "nat \<Rightarrow> string \<Rightarrow> tree_entry list \<Rightarrow> unit prog" where
  "clean_workdir td p [] = ret ()"
| "clean_workdir td p (entry # entries) =
     bind (os_path_isfile td (os_path_join p (entry_name entry))) (\<lambda>isfile.
     bind (if isfile then os_unlink td (os_path_join p (entry_name entry))
           else shutil_rmtree td (os_path_join p (entry_name entry))) (\<lambda>u.
       clean_workdir td p entries))"

definition TemporaryWorktree_enter :: "TemporaryWorktree \<Rightarrow> TemporaryWorktree prog" where
  "TemporaryWorktree_enter self =
     bind (add_worktree (wt_git_repository self) (wt_name self)
             (temp_directory self) (wt_path self)) (\<lambda>obj.
     bind (pygit2_Repository (wt_git_repository self)) (\<lambda>repo.
     bind (worktree_head_tree repo obj) (\<lambda>tree.
     bind (clean_workdir (temp_directory self) (wt_path self) tree) (\<lambda>u.
     bind (os_makedirs (temp_directory self) (extraction_target_path self)) (\<lambda>u.
       ret (self\<lparr>wt_obj := Some obj, wt_repo := Some repo\<rparr>))))))"

definition TemporaryWorktree_exit :: "TemporaryWorktree \<Rightarrow> unit prog" where
  "TemporaryWorktree_exit self =
     bind (shutil_rmtree_temp (temp_directory self)) (\<lambda>u.
     bind (case wt_obj self of
             None \<Rightarrow> ret ()
           | Some obj \<Rightarrow> worktree_prune (wt_git_repository self) obj) (\<lambda>u.
       lookup_branch_delete (wt_git_repository self) (wt_name self)))"

subsection \<open>\<open>AddonGitRepository\<close>\<close>

text \<open>An instance: its path, and the handle that the cached property \<open>git_repository\<close>
  has stored, if it was read before.\<close>

record AddonGitRepository =
  git_repository_path :: string
  cached_git_repository :: "string option"

record user =
  user_name :: string
  user_email :: string

definition AddonGitRepository_init :: "nat \<Rightarrow> string \<Rightarrow> AddonGitRepository prog" where
  "AddonGitRepository_init addon_id package_type =
     (if package_type \<in> set [''addon'', ''source''] then
        (\<lambda>w. (Inr \<lparr>git_repository_path =
                     os_path_join (os_path_join (settings_GIT_FILE_STORAGE_PATH w)
                                                (id_to_path w addon_id)) package_type,
                   cached_git_repository = None\<rparr>,
              w\<lparr>search_path := settings_ROOT w\<rparr>))
      else raise AssertionError)"

definition is_extracted :: "AddonGitRepository \<Rightarrow> bool prog" where
  "is_extracted self = (\<lambda>w. (Inr (disk w (git_repository_path self) \<noteq> None), w))"

definition get_author :: "AddonGitRepository \<Rightarrow> user option \<Rightarrow> signature prog" where
  "get_author self usr =
     (\<lambda>w. (Inr (case usr of
                  Some u \<Rightarrow> \<lparr>sig_name = user_name u, sig_email = user_email u,
                             sig_time = clock w\<rparr>
                | None \<Rightarrow> \<lparr>sig_name = ''Mozilla Add-ons Robot'',
                           sig_email = ''addons-dev-automation+github@mozilla.com'',
                           sig_time = clock w\<rparr>), w))"

definition disk_makedirs :: "string \<Rightarrow> unit prog" where
  "disk_makedirs p =
     bind (prim MakeDirs) (\<lambda>u w.
       case disk w p of
         Some d \<Rightarrow> (Inl (FileExistsError p), w)
       | None \<Rightarrow> (Inr (), w\<lparr>disk := (disk w)(p \<mapsto> PlainDir)\<rparr>))"

text \<open>
  The cached property \<open>git_repository\<close>. In the branch that initializes, the tree is
  written through \<open>self.git_repository\<close>, which enters the property a second time; the
  path exists by then, so that inner read opens the repository.
\<close>

definition git_repository :: "AddonGitRepository \<Rightarrow> (string \<times> AddonGitRepository) prog" where
  "git_repository self =
     (case cached_git_repository self of
        Some h \<Rightarrow> ret (h, self)
      | None \<Rightarrow>
          bind (is_extracted self) (\<lambda>extracted.
            if \<not> extracted then
              bind (disk_makedirs (git_repository_path self)) (\<lambda>u.
              bind (init_repository (git_repository_path self)) (\<lambda>git_repository.
              bind (pygit2_Repository (git_repository_path self)) (\<lambda>inner.
              bind (treebuilder_write inner) (\<lambda>tree.
              bind (get_author self None) (\<lambda>author.
              bind (get_author self None) (\<lambda>committer.
              bind (create_commit git_repository (Some ''HEAD'') author committer
                      ''Initializing repository'' tree []) (\<lambda>c.
                ret (git_repository,
                     self\<lparr>cached_git_repository := Some git_repository\<rparr>))))))))
            else
              bind (pygit2_Repository (git_repository_path self)) (\<lambda>git_repository.
                ret (git_repository,
                     self\<lparr>cached_git_repository := Some git_repository\<rparr>))))"

definition find_or_create_branch ::
  "AddonGitRepository \<Rightarrow> string \<Rightarrow> (branch \<times> AddonGitRepository) prog" where
  "find_or_create_branch self n =
     bind (git_repository self) (\<lambda>(h, self1).
     bind (branches_get h n) (\<lambda>found.
       case found of
         Some b \<Rightarrow> ret (b, self1)
       | None \<Rightarrow>
           bind (git_repository self1) (\<lambda>(h1, self2).
           bind (git_repository self2) (\<lambda>(h2, self3).
           bind (head_peel h2) (\<lambda>c.
           bind (create_branch h1 n c) (\<lambda>b.
             ret (b, self3)))))))"

text \<open>The loop over the enumerated paths of \<open>commit_through_worktree\<close>.\<close>

fun rename_dotgit :: "TemporaryWorktree \<Rightarrow> string list \<Rightarrow> unit prog" where
  "rename_dotgit worktree [] = ret ()"
| "rename_dotgit worktree (filename # files) =
     bind (if os_path_basename filename = ''.git'' then
             bind uuid4 (\<lambda>u.
               shutil_move (temp_directory worktree)
                 (os_path_join (wt_path worktree) filename)
                 (os_path_join (wt_path worktree) (filename @ ''.'' @ take 8 (uuid_hex u))))
           else ret ()) (\<lambda>u.
       rename_dotgit worktree files)"

text \<open>The body of the \<open>with\<close> statement of \<open>commit_through_worktree\<close>.\<close>

definition commit_body ::
  "AddonGitRepository \<Rightarrow> TemporaryWorktree \<Rightarrow> string \<Rightarrow> string \<Rightarrow> user option \<Rightarrow> branch
     \<Rightarrow> commit prog" where
  "commit_body self worktree path message author br =
     bind (extract_extension_to_dest path (temp_directory worktree)
             (extraction_target_path worktree)) (\<lambda>u.
     bind (get_all_files (temp_directory worktree) (extraction_target_path worktree)
             (wt_path worktree) []) (\<lambda>files.
     bind (prim IndexRead) (\<lambda>u.
     bind (rename_dotgit worktree files) (\<lambda>u.
     bind (index_add_all (temp_directory worktree) (wt_path worktree)) (\<lambda>index.
     bind (prim IndexWrite) (\<lambda>u.
     bind (index_write_tree index) (\<lambda>tree.
     bind (get_author self author) (\<lambda>a.
     bind (get_author self None) (\<lambda>c.
     bind (create_commit (wt_git_repository worktree) None a c message tree [target br]) (\<lambda>oid.
     bind (set_target br oid) (\<lambda>u.
       ret oid)))))))))))"

definition commit_through_worktree ::
  "AddonGitRepository \<Rightarrow> string \<Rightarrow> string \<Rightarrow> user option \<Rightarrow> branch
     \<Rightarrow> (commit \<times> AddonGitRepository) prog" where
  "commit_through_worktree self path message author br =
     bind (git_repository self) (\<lambda>(h, self1).
     bind (TemporaryWorktree_init h) (\<lambda>wt.
     bind (TemporaryWorktree_enter wt) (\<lambda>worktree.
     bind (try_finally (commit_body self1 worktree path message author br)
                       (TemporaryWorktree_exit worktree)) (\<lambda>c.
       ret (c, self1)))))"

subsection \<open>The entry points\<close>

record file_obj =
  current_file_path :: string
  file_repr :: string

record version =
  version_id :: nat
  version_repr :: string
  addon_id :: nat
  addon_repr :: string
  all_files :: "file_obj list"
  channel :: nat
  source_path :: string

definition get_language :: "string prog" where
  "get_language = (\<lambda>w. (Inr (language w), w))"

definition activate :: "string \<Rightarrow> unit prog" where
  "activate l = (\<lambda>w. (Inr (), w\<lparr>language := l\<rparr>))"

definition version_update_git_hash :: "version \<Rightarrow> commit \<Rightarrow> unit prog" where
  "version_update_git_hash v c =
     bind (prim VersionUpdate) (\<lambda>u w.
       (Inr (), w\<lparr>git_hash := (git_hash w)(version_id v \<mapsto> c)\<rparr>))"

definition version_update_source_git_hash :: "version \<Rightarrow> commit \<Rightarrow> unit prog" where
  "version_update_source_git_hash v c =
     bind (prim VersionUpdate) (\<lambda>u w.
       (Inr (), w\<lparr>source_git_hash := (source_git_hash w)(version_id v \<mapsto> c)\<rparr>))"

definition version_message :: "version \<Rightarrow> file_obj \<Rightarrow> string" where
  "version_message v f =
     ''Create new version '' @ version_repr v @ '' ('' @ str_nat (version_id v) @
     '') for '' @ addon_repr v @ '' from '' @ file_repr f"

definition source_message :: "version \<Rightarrow> string" where
  "source_message v =
     ''Create new version '' @ version_repr v @ '' ('' @ str_nat (version_id v) @
     '') for '' @ addon_repr v @ '' from source file''"

definition extract_and_commit_from_version ::
  "version \<Rightarrow> user option \<Rightarrow> AddonGitRepository prog" where
  "extract_and_commit_from_version v author =
     bind get_language (\<lambda>current_language.
     bind (try_finally
             (bind (activate ''en-US'') (\<lambda>u.
              bind (AddonGitRepository_init (addon_id v) ''addon'') (\<lambda>repo.
              case all_files v of
                [] \<Rightarrow> raise IndexError
              | f # fs \<Rightarrow>
                  (case map_of BRANCHES (channel v) of
                     None \<Rightarrow> raise (KeyError (str_nat (channel v)))
                   | Some bn \<Rightarrow>
                       bind (find_or_create_branch repo bn) (\<lambda>(br, repo1).
                       bind (commit_through_worktree repo1 (current_file_path f)
                               (version_message v f) author br) (\<lambda>(c, repo2).
                       bind (version_update_git_hash v c) (\<lambda>u.
                         ret repo2)))))))
             (activate current_language)) (\<lambda>repo.
       ret repo))"

definition extract_and_commit_source_from_version ::
  "version \<Rightarrow> user option \<Rightarrow> AddonGitRepository prog" where
  "extract_and_commit_source_from_version v author =
     bind (AddonGitRepository_init (addon_id v) ''source'') (\<lambda>repo.
     case map_of BRANCHES (channel v) of
       None \<Rightarrow> raise (KeyError (str_nat (channel v)))
     | Some bn \<Rightarrow>
         bind (find_or_create_branch repo bn) (\<lambda>(br, repo1).
         bind (commit_through_worktree repo1 (source_path v) (source_message v) author br)
              (\<lambda>(c, repo2).
         bind (version_update_source_git_hash v c) (\<lambda>u.
           ret repo2))))"

subsection \<open>Reading a commit\<close>

definition get_root_tree :: "AddonGitRepository \<Rightarrow> commit \<Rightarrow> (obj \<times> AddonGitRepository) prog" where
  "get_root_tree self c =
     bind (git_repository self) (\<lambda>(h, self1).
       case find (\<lambda>e. entry_name e = EXTRACTED_PREFIX) (commit_tree c) of
         None \<Rightarrow> raise (KeyError EXTRACTED_PREFIX)
       | Some e \<Rightarrow> ret (entry_oid e, self1))"

record TreeEntryWrapper =
  tree_entry :: tree_entry
  path :: string
  blob :: "obj option"

text \<open>The generator \<open>iter_tree\<close>, as the list of what it yields.\<close>

fun iter_tree :: "tree_entry list \<Rightarrow> TreeEntryWrapper list" where
  "iter_tree [] = []"
| "iter_tree (TreeEntry n (Tree children) # rest) =
     \<lparr>tree_entry = TreeEntry n (Tree children), path = n, blob = None\<rparr> #
     map (\<lambda>child. \<lparr>tree_entry = tree_entry child,
                    path = os_path_join n (path child),
                    blob = blob child\<rparr>) (iter_tree children)
     @ iter_tree rest"
| "iter_tree (TreeEntry n (Blob b) # rest) =
     \<lparr>tree_entry = TreeEntry n (Blob b), path = n, blob = Some (Blob b)\<rparr> # iter_tree rest"



text \<open>What \<open>iter_tree\<close> does to a wrapper of a subtree's walk: the path is joined to the
  directory's name, the entry and the blob are kept.\<close>

definition reroot :: "string \<Rightarrow> TreeEntryWrapper \<Rightarrow> TreeEntryWrapper" where
  "reroot p child =
     \<lparr>tree_entry = tree_entry child, path = os_path_join p (path child), blob = blob child\<rparr>"

text \<open>The identity of the service, and the commit that \<open>git_repository\<close> writes when it
  initializes a repository at time \<open>t\<close>.\<close>

definition robot :: "int \<Rightarrow> signature" where
  "robot t = \<lparr>sig_name = ''Mozilla Add-ons Robot'',
              sig_email = ''addons-dev-automation+github@mozilla.com'',
              sig_time = t\<rparr>"

definition root_commit :: "int \<Rightarrow> commit" where
  "root_commit t = Commit [] (robot t) (robot t) ''Initializing repository'' []"

section \<open>Notions for the statements\<close>

text \<open>The tip of a branch of the repository at a path, if both exist.\<close>

definition branch_tip :: "world \<Rightarrow> string \<Rightarrow> string \<Rightarrow> commit option" where
  "branch_tip w p n = (case disk w p of Some (Repo r) \<Rightarrow> branches r n | _ \<Rightarrow> None)"

text \<open>The signature \<open>get_author\<close> makes at time \<open>t\<close>.\<close>

definition author_sig :: "user option \<Rightarrow> int \<Rightarrow> signature" where
  "author_sig usr t =
     (case usr of
        Some u \<Rightarrow> \<lparr>sig_name = user_name u, sig_email = user_email u, sig_time = t\<rparr>
      | None \<Rightarrow> robot t)"

text \<open>The repository that \<open>git_repository\<close> leaves behind when it initializes at time
  \<open>t\<close>, and the path \<open>AddonGitRepository.__init__\<close> computes.\<close>

definition fresh_repository :: "int \<Rightarrow> repository" where
  "fresh_repository t =
     \<lparr>branches = [''master'' \<mapsto> root_commit t], head = ''master'', worktrees = []\<rparr>"

definition repo_path :: "world \<Rightarrow> nat \<Rightarrow> string \<Rightarrow> string" where
  "repo_path w aid kind =
     os_path_join (os_path_join (settings_GIT_FILE_STORAGE_PATH w) (id_to_path w aid)) kind"

text \<open>The parameters of the environment, which no operation changes; what an operation
  on the temporary area alone leaves unchanged; and what every operation of the sandbox
  leaves unchanged.\<close>

definition same_env :: "world \<Rightarrow> world \<Rightarrow> bool" where
  "same_env w w' =
     (clock w' = clock w \<and> faults w' = faults w \<and> uuids w' = uuids w \<and>
      uploads w' = uploads w \<and> settings_ROOT w' = settings_ROOT w \<and>
      settings_GIT_FILE_STORAGE_PATH w' = settings_GIT_FILE_STORAGE_PATH w \<and>
      id_to_path w' = id_to_path w)"

definition fs_only :: "world \<Rightarrow> world \<Rightarrow> bool" where
  "fs_only w w' =
     (same_env w w' \<and> disk w' = disk w \<and> language w' = language w \<and>
      search_path w' = search_path w \<and> git_hash w' = git_hash w \<and>
      source_git_hash w' = source_git_hash w \<and> tmp_next w' = tmp_next w \<and>
      dom (tmp w') = dom (tmp w))"

definition fs_step :: "'a prog \<Rightarrow> bool" where
  "fs_step m = (\<forall>w r w'. m w = (r, w') \<longrightarrow> fs_only w w')"

definition frame :: "world \<Rightarrow> world \<Rightarrow> bool" where
  "frame w w' =
     (same_env w w' \<and> language w' = language w \<and> search_path w' = search_path w \<and>
      git_hash w' = git_hash w \<and> source_git_hash w' = source_git_hash w)"

text \<open>
  Parts of \<open>commit_through_worktree\<close>, named so that lemmas can speak of them: the worktree
  object that \<open>TemporaryWorktree.__init__\<close> builds, the staging steps of the body up to the
  tree (extraction, enumeration, renaming, \<open>add_all\<close>, \<open>write_tree\<close>), what follows the
  read of the handle, and the paths the renaming loop runs over.
\<close>

definition new_worktree :: "string \<Rightarrow> string \<Rightarrow> nat \<Rightarrow> TemporaryWorktree" where
  "new_worktree h n td =
     \<lparr>wt_git_repository = h, wt_name = n, temp_directory = td, wt_path = n,
      extraction_target_path = os_path_join n EXTRACTED_PREFIX, wt_obj = None, wt_repo = None\<rparr>"

definition stage :: "TemporaryWorktree \<Rightarrow> string \<Rightarrow> (tree_entry list) prog" where
  "stage worktree source =
     bind (extract_extension_to_dest source (temp_directory worktree)
             (extraction_target_path worktree)) (\<lambda>u.
     bind (get_all_files (temp_directory worktree) (extraction_target_path worktree)
             (wt_path worktree) []) (\<lambda>files.
     bind (prim IndexRead) (\<lambda>u.
     bind (rename_dotgit worktree files) (\<lambda>u.
     bind (index_add_all (temp_directory worktree) (wt_path worktree)) (\<lambda>index.
     bind (prim IndexWrite) (\<lambda>u.
       index_write_tree index))))))"

definition in_worktree ::
  "string \<Rightarrow> AddonGitRepository \<Rightarrow> string \<Rightarrow> string \<Rightarrow> user option \<Rightarrow> branch
     \<Rightarrow> (commit \<times> AddonGitRepository) prog" where
  "in_worktree h self1 source message author br =
     bind (TemporaryWorktree_init h) (\<lambda>wt.
     bind (TemporaryWorktree_enter wt) (\<lambda>worktree.
     bind (try_finally (commit_body self1 worktree source message author br)
                       (TemporaryWorktree_exit worktree)) (\<lambda>c.
       ret (c, self1))))"

definition sandbox_files :: "string \<Rightarrow> fsentry list \<Rightarrow> string list" where
  "sandbox_files n content =
     map (\<lambda>fname. os_path_join [] (drop (length n + 1) fname))
         (walk (os_path_join n EXTRACTED_PREFIX) content)"

text \<open>
  The history of a commit along first parents, newest first (\<open>git log\<close> of a linear
  branch), and calls of \<open>extract_and_commit_from_version\<close> issued one after the other, each
  at its own time.
\<close>

fun commit_log :: "commit \<Rightarrow> commit list" where
  "commit_log (Commit t a c m []) = [Commit t a c m []]"
| "commit_log (Commit t a c m (p # ps)) = Commit t a c m (p # ps) # commit_log p"

fun materialize_serially :: "(int \<times> version \<times> user option) list \<Rightarrow> unit prog" where
  "materialize_serially [] = ret ()"
| "materialize_serially ((t, v, a) # rest) =
     bind (\<lambda>w. (Inr (), w\<lparr>clock := t\<rparr>)) (\<lambda>u.
     bind (extract_and_commit_from_version v a) (\<lambda>repo.
       materialize_serially rest))"

section \<open>Examples\<close>

text \<open>
  A concrete state for the examples: an empty storage area, no temporary directory, one
  value of \<open>uuid4\<close> (the one the tests patch in), the active language \<open>fr\<close>, no fault,
  and four uploads: a package of two files, a package with a nested directory \<open>.git\<close>,
  a package with a directory \<open>.git\<close> inside a directory \<open>.git\<close>, and a file that is no
  archive.
\<close>

definition ex_world :: world where
  "ex_world =
     \<lparr>language = ''fr'',
      search_path = ''/root'',
      disk = Map.empty,
      tmp = Map.empty,
      tmp_next = 0,
      uuids = (\<lambda>i. 0xb236f5994773477bbcd2d1b75ab1458f),
      uuid_next = 0,
      clock = 1000,
      uploads = [''/up/a.xpi'' \<mapsto> Archive [FsEntry ''manifest.json'' (File ''{}''),
                                                FsEntry ''README.md'' (File ''hello'')],
                 ''/up/b.zip'' \<mapsto> Archive [FsEntry ''manifest.json'' (File ''{}''),
                                                FsEntry ''src''
                                                  (Dir [FsEntry ''.git''
                                                     (Dir [FsEntry ''config'' (File [])])])],
                 ''/up/c.zip'' \<mapsto> Archive [FsEntry ''.git''
                                                  (Dir [FsEntry ''.git''
                                                     (Dir [FsEntry ''config'' (File [])])])],
                 ''/up/bad.xpi'' \<mapsto> Corrupt],
      git_hash = Map.empty,
      source_git_hash = Map.empty,
      faults = (\<lambda>s. False),
      settings_ROOT = ''/app'',
      settings_GIT_FILE_STORAGE_PATH = ''/git'',
      id_to_path = str_nat\<rparr>"

text \<open>The same state once the repository of add-on 42 exists with the branch \<open>listed\<close>
  at the root commit; an instance that has read its handle; the branch object.\<close>

definition ex_repo_world :: world where
  "ex_repo_world =
     ex_world\<lparr>disk := [''/git/42/addon'' \<mapsto>
                 Repo \<lparr>branches = [''master'' \<mapsto> root_commit 1000,
                                   ''listed'' \<mapsto> root_commit 1000],
                       head = ''master'', worktrees = []\<rparr>]\<rparr>"

definition ex_self :: AddonGitRepository where
  "ex_self = \<lparr>git_repository_path = ''/git/42/addon'',
              cached_git_repository = Some ''/git/42/addon''\<rparr>"

definition ex_branch :: branch where
  "ex_branch = \<lparr>branch_repo = ''/git/42/addon'', branch_name = ''listed'',
                target = root_commit 1000\<rparr>"

definition ex_version :: "nat \<Rightarrow> string \<Rightarrow> nat \<Rightarrow> version" where
  "ex_version vid file ch =
     \<lparr>version_id = vid, version_repr = ''<Version>'', addon_id = 42, addon_repr = ''<Addon>'',
      all_files = [\<lparr>current_file_path = file, file_repr = ''<File>''\<rparr>],
      channel = ch, source_path = file\<rparr>"

section \<open>Sequencing\<close>

lemma bind_apply:
  "bind m f w = (case m w of (Inl e, w') \<Rightarrow> (Inl e, w') | (Inr x, w') \<Rightarrow> f x w')"
  by (simp add: bind_def)

lemma bind_Inr: "m w = (Inr x, w1) \<Longrightarrow> bind m f w = f x w1"
  by (simp add: bind_def)

lemma bind_Inl: "m w = (Inl e, w1) \<Longrightarrow> bind m f w = (Inl e, w1)"
  by (simp add: bind_def)

lemma bind_InrE:
  assumes "bind m f w = (Inr y, w')"
  obtains x w1 where "m w = (Inr x, w1)" "f x w1 = (Inr y, w')"
  using assms by (auto simp: bind_def split: prod.splits sum.splits)

lemma git_repository_cached:
  "cached_git_repository self = Some h \<Longrightarrow> git_repository self w = (Inr (h, self), w)"
  by (simp add: git_repository_def ret_def)

section \<open>Walking a tree\<close>



lemma split_acc_noslash:
  "CHR ''/'' \<notin> set n \<Longrightarrow> split_acc (n @ rest) cur = split_acc rest (rev n @ cur)"
  by (induction n arbitrary: cur) auto

lemma os_path_join_plain:
  assumes "n \<noteq> []" "CHR ''/'' \<notin> set n" "p \<noteq> []" "hd p \<noteq> CHR ''/''"
  shows "os_path_join n p = n @ CHR ''/'' # p"
proof -
  have "last n \<noteq> CHR ''/''" using assms(1,2) by (metis last_in_set)
  then show ?thesis using assms by (simp add: os_path_join_def)
qed

lemma split_path_join:
  assumes "n \<noteq> []" "CHR ''/'' \<notin> set n" "p \<noteq> []" "hd p \<noteq> CHR ''/''"
  shows "split_path (os_path_join n p) = n # split_path p"
  using assms split_acc_noslash[of n "CHR ''/'' # p" "[]"]
  by (simp add: os_path_join_plain split_path_def)

lemma split_path_single: "n \<noteq> [] \<Longrightarrow> CHR ''/'' \<notin> set n \<Longrightarrow> split_path n = [n]"
  using split_acc_noslash[of n "[]" "[]"] by (simp add: split_path_def)

lemma iter_tree_eq:
  "iter_tree (e # rest) =
     (case entry_oid e of
        Tree children \<Rightarrow>
          \<lparr>tree_entry = e, path = entry_name e, blob = None\<rparr> #
          map (reroot (entry_name e)) (iter_tree children)
      | Blob b \<Rightarrow> [\<lparr>tree_entry = e, path = entry_name e, blob = Some (Blob b)\<rparr>]) @ iter_tree rest"
  by (cases e; cases "entry_oid e") (auto simp: reroot_def)

lemma iter_tree_append: "iter_tree (xs @ ys) = iter_tree xs @ iter_tree ys"
  by (induction xs) (simp_all add: iter_tree_eq del: iter_tree.simps(2,3))


lemma find_name_notin: "n \<notin> set (map entry_name es) \<Longrightarrow> find (\<lambda>e. entry_name e = n) es = None"
  by (induction es) auto







section \<open>The root of the extracted files\<close>

text \<open>
  Claim C10. \<open>get_root_tree\<close> reads the handle of the repository and then returns the
  object under the entry \<open>extracted\<close> of the commit's tree; when the tree has no entry of
  that name it raises \<open>KeyError\<close>. It returns nothing for such a commit, whatever the state,
  and so nothing for a root commit, whose tree is empty.
\<close>

theorem get_root_tree_extracted:
  "(git_repository self w = (Inr (h, self1), w1) \<longrightarrow>
      get_root_tree self c w =
        (case find (\<lambda>e. entry_name e = ''extracted'') (commit_tree c) of
           None \<Rightarrow> (Inl (KeyError ''extracted''), w1)
         | Some e \<Rightarrow> (Inr (entry_oid e, self1), w1)))
   \<and> (find (\<lambda>e. entry_name e = ''extracted'') (commit_tree c) = None \<longrightarrow>
        (\<forall>x w'. get_root_tree self c w \<noteq> (Inr x, w')))
   \<and> (\<forall>x w'. get_root_tree self (root_commit t) w \<noteq> (Inr x, w'))"
  by (auto simp: get_root_tree_def bind_def raise_def ret_def EXTRACTED_PREFIX_def root_commit_def
           split: prod.splits sum.splits option.splits)

theorem get_root_tree_extracted_witness:
  "git_repository \<lparr>git_repository_path = ''/git/1/1/1/addon'',
                   cached_git_repository = Some ''/git/1/1/1/addon''\<rparr> ex_world
     = (Inr (''/git/1/1/1/addon'',
             \<lparr>git_repository_path = ''/git/1/1/1/addon'',
              cached_git_repository = Some ''/git/1/1/1/addon''\<rparr>), ex_world)
   \<and> get_root_tree \<lparr>git_repository_path = ''/git/1/1/1/addon'',
                    cached_git_repository = Some ''/git/1/1/1/addon''\<rparr>
       (Commit [TreeEntry ''extracted'' (Tree [TreeEntry ''manifest.json'' (Blob ''{}'')])]
          (robot 5) (robot 5) ''rev 1'' [root_commit 0]) ex_world
     = (Inr (Tree [TreeEntry ''manifest.json'' (Blob ''{}'')],
             \<lparr>git_repository_path = ''/git/1/1/1/addon'',
              cached_git_repository = Some ''/git/1/1/1/addon''\<rparr>), ex_world)
   \<and> find (\<lambda>e. entry_name e = ''extracted'') (commit_tree (root_commit 0)) = None
   \<and> get_root_tree \<lparr>git_repository_path = ''/git/1/1/1/addon'',
                    cached_git_repository = Some ''/git/1/1/1/addon''\<rparr> (root_commit 0) ex_world
     = (Inl (KeyError ''extracted''), ex_world)"
proof -
  let ?self = "\<lparr>git_repository_path = ''/git/1/1/1/addon'',
                cached_git_repository = Some ''/git/1/1/1/addon''\<rparr>"
  have g: "git_repository ?self ex_world = (Inr (''/git/1/1/1/addon'', ?self), ex_world)"
    by (simp add: git_repository_cached)
  show ?thesis
    using g
      get_root_tree_extracted [of ?self ex_world "''/git/1/1/1/addon''" ?self ex_world
        "Commit [TreeEntry ''extracted'' (Tree [TreeEntry ''manifest.json'' (Blob ''{}'')])]
           (robot 5) (robot 5) ''rev 1'' [root_commit 0]" 0]
      get_root_tree_extracted [of ?self ex_world "''/git/1/1/1/addon''" ?self ex_world "root_commit 0" 0]
    by (simp add: root_commit_def)
qed

section \<open>The active language\<close>


section \<open>Lemmas about the operations\<close>

lemma same_env_refl: "same_env w w" by (simp add: same_env_def)

lemma same_env_trans: "same_env a b \<Longrightarrow> same_env b c \<Longrightarrow> same_env a c" by (simp add: same_env_def)

lemma fs_only_refl: "fs_only w w" by (simp add: fs_only_def same_env_def)

lemma fs_only_trans: "fs_only a b \<Longrightarrow> fs_only b c \<Longrightarrow> fs_only a c"
  by (simp add: fs_only_def same_env_def)

lemma fs_stepD: "fs_step m \<Longrightarrow> m w = (r, w') \<Longrightarrow> fs_only w w'"
  by (auto simp: fs_step_def)

lemma fs_step_ret: "fs_step (ret x)" by (simp add: fs_step_def ret_def fs_only_refl)

lemma fs_step_raise: "fs_step (raise e)" by (simp add: fs_step_def raise_def fs_only_refl)

lemma fs_step_prim: "fs_step (prim s)" by (auto simp: fs_step_def prim_def fs_only_refl split: if_splits)

lemma fs_step_uuid4: "fs_step uuid4" by (auto simp: fs_step_def uuid4_def fs_only_def same_env_def)

lemma fs_step_bind: "fs_step m \<Longrightarrow> (\<And>x. fs_step (f x)) \<Longrightarrow> fs_step (bind m f)"
  unfolding fs_step_def bind_def
  by (auto split: prod.splits sum.splits) (meson fs_only_trans)

lemma fs_step_if: "fs_step a \<Longrightarrow> fs_step b \<Longrightarrow> fs_step (if c then a else b)" by simp

lemma fs_step_tmp_root: "fs_step (tmp_root td)"
  by (auto simp: fs_step_def tmp_root_def fs_only_refl split: option.splits)

lemma fs_step_isfile: "fs_step (os_path_isfile td p)"
  by (auto simp: fs_step_def os_path_isfile_def fs_only_refl)

lemma with_root_step:
  assumes "\<And>root. fs_step (g root) \<or> (\<exists>k. g root = k \<and> (\<forall>w r w'. tmp w td \<noteq> None \<longrightarrow> k w = (r, w') \<longrightarrow> fs_only w w'))"
  shows "fs_step (bind (tmp_root td) g)"
  using assms unfolding fs_step_def bind_def tmp_root_def
  by (auto split: prod.splits sum.splits option.splits simp: fs_only_refl)

lemma tmp_store_ok: "tmp w td = Some y \<Longrightarrow> tmp_store td root w = (r, w') \<Longrightarrow> fs_only w w'"
  by (cases root) (auto simp: tmp_store_def raise_def fs_only_def same_env_def split: if_splits)

lemma raise_ok: "raise e w = (r, w') \<Longrightarrow> fs_only w w'"
  by (simp add: raise_def fs_only_refl)

lemma ret_ok: "ret x w = (r, w') \<Longrightarrow> fs_only w w'"
  by (auto simp add: ret_def fs_only_refl)

lemma fs_step_remove_path: "fs_step (remove_path s td p)"
  unfolding remove_path_def
  apply (rule fs_step_bind[OF fs_step_prim])
  apply (rule with_root_step)
  apply (rule disjI2)
  apply (auto split: option.splits dest: raise_ok tmp_store_ok)
  done

lemma fs_step_makedirs: "fs_step (os_makedirs td p)"
  unfolding os_makedirs_def
  apply (rule fs_step_bind[OF fs_step_prim])
  apply (rule with_root_step)
  apply (rule disjI2)
  apply (auto split: option.splits dest: raise_ok tmp_store_ok)
  done

lemma fs_step_move: "fs_step (shutil_move td src dst)"
  unfolding shutil_move_def
  apply (rule fs_step_bind[OF fs_step_prim])
  apply (rule with_root_step)
  apply (rule disjI2)
  apply (auto split: option.splits fsnode.splits simp: Let_def dest: raise_ok tmp_store_ok)
  done

lemma fs_step_get_all_files: "fs_step (get_all_files td folder sp pre)"
  unfolding get_all_files_def
  apply (rule with_root_step)
  apply (rule disjI2)
  apply (auto split: option.splits fsnode.splits dest: raise_ok ret_ok)
  done

lemma fs_step_index_add_all: "fs_step (index_add_all td p)"
  unfolding index_add_all_def
  apply (rule fs_step_bind[OF fs_step_prim])
  apply (rule with_root_step)
  apply (rule disjI2)
  apply (auto split: option.splits fsnode.splits if_splits dest: raise_ok ret_ok)
  done

lemma fs_step_extract: "fs_step (extract_extension_to_dest source td dest)"
  unfolding extract_extension_to_dest_def
  apply (rule fs_step_bind[OF fs_step_prim])
  apply (auto simp: fs_step_def fs_only_refl bind_def tmp_root_def
      split: option.splits archive.splits fsnode.splits prod.splits sum.splits dest: raise_ok tmp_store_ok)
  done

lemma fs_step_rename_dotgit: "fs_step (rename_dotgit wt files)"
  by (induction files) (auto intro!: fs_step_bind fs_step_ret fs_step_uuid4 fs_step_move)

lemma fs_step_write_tree: "fs_step (index_write_tree index)"
  unfolding index_write_tree_def by (intro fs_step_bind fs_step_prim fs_step_ret)

lemma frame_refl: "frame w w" by (simp add: frame_def same_env_refl)

lemma frame_trans: "frame a b \<Longrightarrow> frame b c \<Longrightarrow> frame a c"
  by (auto simp: frame_def intro: same_env_trans)

lemma fs_only_frame: "fs_only w w' \<Longrightarrow> frame w w'" by (simp add: fs_only_def frame_def)

lemma bind_assoc: "bind (bind m f) g = bind m (\<lambda>x. bind (f x) g)"
  by (auto simp: bind_def fun_eq_iff split: prod.splits sum.splits)

lemma fs_step_stage: "fs_step (stage wt p)"
  unfolding stage_def
  by (intro fs_step_bind fs_step_extract fs_step_get_all_files fs_step_prim
        fs_step_rename_dotgit fs_step_index_add_all fs_step_write_tree)

lemma get_author_apply: "get_author self u w = (Inr (author_sig u (clock w)), w)"
  by (simp add: get_author_def author_sig_def robot_def split: option.splits)

lemma create_commit_None:
  "create_commit h None a c msg tree ps w =
     (if faults w CreateCommit then (Inl (Fault CreateCommit), w)
      else case disk w h of
             Some (Repo r) \<Rightarrow> (Inr (Commit tree a c msg ps), w)
           | _ \<Rightarrow> (Inl (GitError h), w))"
  by (simp add: create_commit_def bind_def prim_def get_repo_def ret_def
           split: option.splits dirstate.splits)

lemma set_target_apply:
  "set_target b c w =
     (if faults w SetTarget then (Inl (Fault SetTarget), w)
      else case disk w (branch_repo b) of
             Some (Repo r) \<Rightarrow>
               if branches r (branch_name b) = None then (Inl (GitError (branch_name b)), w)
               else (Inr (), w\<lparr>disk := (disk w)(branch_repo b \<mapsto>
                                  Repo (r\<lparr>branches := (branches r)(branch_name b \<mapsto> c)\<rparr>))\<rparr>)
           | _ \<Rightarrow> (Inl (GitError (branch_repo b)), w))"
  by (simp add: set_target_def bind_def prim_def get_repo_def put_repo_def raise_def
           split: option.splits dirstate.splits)

lemma commit_body_stage:
  "commit_body self wt p msg author br =
     bind (stage wt p) (\<lambda>tree.
     bind (get_author self author) (\<lambda>a.
     bind (get_author self None) (\<lambda>c.
     bind (create_commit (wt_git_repository wt) None a c msg tree [target br]) (\<lambda>oid.
     bind (set_target br oid) (\<lambda>u.
       ret oid)))))"
  by (simp add: commit_body_def stage_def bind_assoc)

lemma commit_body_apply:
  "commit_body self wt p msg author br w =
     (case stage wt p w of
        (Inl e, w1) \<Rightarrow> (Inl e, w1)
      | (Inr tree, w1) \<Rightarrow>
          (case create_commit (wt_git_repository wt) None (author_sig author (clock w1))
                  (robot (clock w1)) msg tree [target br] w1 of
             (Inl e, w2) \<Rightarrow> (Inl e, w2)
           | (Inr oid, w2) \<Rightarrow>
               (case set_target br oid w2 of
                  (Inl e, w3) \<Rightarrow> (Inl e, w3)
                | (Inr u, w3) \<Rightarrow> (Inr oid, w3))))"
  by (simp add: commit_body_stage bind_apply get_author_apply author_sig_def ret_def
        split: prod.splits sum.splits)

lemma commit_body_Inl:
  assumes "commit_body self wt p msg author br w = (Inl e, w')"
  shows "fs_only w w'"
proof -
  obtain r1 w1 where s: "stage wt p w = (r1, w1)" by (cases "stage wt p w")
  then have f: "fs_only w w1" using fs_stepD[OF fs_step_stage] by blast
  show ?thesis
    using assms s f
    by (auto simp: commit_body_apply create_commit_None set_target_apply
             split: sum.splits if_splits option.splits dirstate.splits prod.splits)
qed

lemma commit_body_Inr:
  assumes "commit_body self wt p msg author br w = (Inr c, w')"
  obtains tree w1 r rb where
    "stage wt p w = (Inr tree, w1)" "fs_only w w1"
    "c = Commit tree (author_sig author (clock w)) (robot (clock w)) msg [target br]"
    "disk w (wt_git_repository wt) = Some (Repo r)"
    "disk w (branch_repo br) = Some (Repo rb)" "branches rb (branch_name br) \<noteq> None"
    "w' = w1\<lparr>disk := (disk w)(branch_repo br \<mapsto>
                  Repo (rb\<lparr>branches := (branches rb)(branch_name br \<mapsto> c)\<rparr>))\<rparr>"
proof -
  obtain r1 w1 where s: "stage wt p w = (r1, w1)" by (cases "stage wt p w")
  then have f: "fs_only w w1" using fs_stepD[OF fs_step_stage] by blast
  then have d: "disk w1 = disk w" "clock w1 = clock w" by (auto simp: fs_only_def same_env_def)
  show ?thesis
    using assms s f d that
    by (auto simp: commit_body_apply create_commit_None set_target_apply
             split: sum.splits if_splits option.splits dirstate.splits prod.splits)
qed

lemma init_apply:
  "TemporaryWorktree_init h w =
     (if faults w MkdTemp then (Inl (Fault MkdTemp), w\<lparr>uuid_next := Suc (uuid_next w)\<rparr>)
      else (Inr (new_worktree h (uuid_hex (uuids w (uuid_next w))) (tmp_next w)),
            w\<lparr>tmp := (tmp w)(tmp_next w \<mapsto> []), tmp_next := Suc (tmp_next w),
              uuid_next := Suc (uuid_next w)\<rparr>))"
  by (simp add: TemporaryWorktree_init_def new_worktree_def bind_def uuid4_def mkdtemp_def
        prim_def ret_def)

lemma add_worktree_Inr:
  assumes "add_worktree h n td p w = (Inr obj, w')"
  obtains r hc es es' where
    "obj = n" "disk w h = Some (Repo r)" "branches r (head r) = Some hc" "branches r n = None"
    "n \<notin> set (worktrees r)" "tmp w td = Some es"
    "w' = w\<lparr>tmp := (tmp w)(td \<mapsto> es'),
             disk := (disk w)(h \<mapsto> Repo (r\<lparr>branches := (branches r)(n \<mapsto> hc),
                                               worktrees := n # worktrees r\<rparr>))\<rparr>"
  using assms
  by (auto simp: add_worktree_def bind_def prim_def get_repo_def tmp_root_def tmp_store_def
        put_repo_def ret_def raise_def
        split: if_splits option.splits dirstate.splits fsnode.splits prod.splits sum.splits)

lemma pygit2_Repository_same: "pygit2_Repository h w = (r, w') \<Longrightarrow> w' = w"
  by (auto simp: pygit2_Repository_def bind_def prim_def get_repo_def ret_def
        split: if_splits option.splits dirstate.splits)

lemma pygit2_Repository_Inr: "pygit2_Repository h w = (Inr x, w') \<Longrightarrow> x = h"
  by (auto simp: pygit2_Repository_def bind_def prim_def get_repo_def ret_def
        split: if_splits option.splits dirstate.splits)

lemma worktree_head_tree_same: "worktree_head_tree h n w = (r, w') \<Longrightarrow> w' = w"
  by (auto simp: worktree_head_tree_def bind_def get_repo_def ret_def raise_def
        split: if_splits option.splits dirstate.splits)

lemma fs_step_clean_workdir: "fs_step (clean_workdir td p entries)"
  by (induction entries)
     (auto intro!: fs_step_bind fs_step_ret fs_step_isfile fs_step_remove_path
           simp: os_unlink_def shutil_rmtree_def)

lemma enter_Inr:
  assumes "TemporaryWorktree_enter wt w = (Inr wt', w')"
  obtains r hc where
    "wt' = wt\<lparr>wt_obj := Some (wt_name wt), wt_repo := Some (wt_git_repository wt)\<rparr>"
    "disk w (wt_git_repository wt) = Some (Repo r)"
    "branches r (head r) = Some hc" "branches r (wt_name wt) = None"
    "wt_name wt \<notin> set (worktrees r)"
    "disk w' = (disk w)(wt_git_repository wt \<mapsto>
                  Repo (r\<lparr>branches := (branches r)(wt_name wt \<mapsto> hc),
                          worktrees := wt_name wt # worktrees r\<rparr>))"
    "tmp w' (temp_directory wt) \<noteq> None" "frame w w'" "tmp_next w' = tmp_next w"
    "dom (tmp w') = dom (tmp w)"
proof -
  from assms obtain obj w1 where a: "add_worktree (wt_git_repository wt) (wt_name wt)
        (temp_directory wt) (wt_path wt) w = (Inr obj, w1)"
    and rest1: "bind (pygit2_Repository (wt_git_repository wt)) (\<lambda>repo.
     bind (worktree_head_tree repo obj) (\<lambda>tree.
     bind (clean_workdir (temp_directory wt) (wt_path wt) tree) (\<lambda>u.
     bind (os_makedirs (temp_directory wt) (extraction_target_path wt)) (\<lambda>u.
       ret (wt\<lparr>wt_obj := Some obj, wt_repo := Some repo\<rparr>))))) w1 = (Inr wt', w')"
    unfolding TemporaryWorktree_enter_def by (erule bind_InrE)
  from rest1 obtain repo w2 where b: "pygit2_Repository (wt_git_repository wt) w1 = (Inr repo, w2)"
    and rest2: "bind (worktree_head_tree repo obj) (\<lambda>tree.
     bind (clean_workdir (temp_directory wt) (wt_path wt) tree) (\<lambda>u.
     bind (os_makedirs (temp_directory wt) (extraction_target_path wt)) (\<lambda>u.
       ret (wt\<lparr>wt_obj := Some obj, wt_repo := Some repo\<rparr>)))) w2 = (Inr wt', w')"
    by (erule bind_InrE)
  from rest2 obtain tree w3 where c: "worktree_head_tree repo obj w2 = (Inr tree, w3)"
    and rest3: "bind (clean_workdir (temp_directory wt) (wt_path wt) tree) (\<lambda>u.
     bind (os_makedirs (temp_directory wt) (extraction_target_path wt)) (\<lambda>u.
       ret (wt\<lparr>wt_obj := Some obj, wt_repo := Some repo\<rparr>))) w3 = (Inr wt', w')"
    by (erule bind_InrE)
  from rest3 obtain u1 w4 where d: "clean_workdir (temp_directory wt) (wt_path wt) tree w3 = (Inr u1, w4)"
    and rest4: "bind (os_makedirs (temp_directory wt) (extraction_target_path wt)) (\<lambda>u.
       ret (wt\<lparr>wt_obj := Some obj, wt_repo := Some repo\<rparr>)) w4 = (Inr wt', w')"
    by (erule bind_InrE)
  from rest4 obtain u2 w5 where e: "os_makedirs (temp_directory wt) (extraction_target_path wt) w4 = (Inr u2, w5)"
    and rest5: "ret (wt\<lparr>wt_obj := Some obj, wt_repo := Some repo\<rparr>) w5 = (Inr wt', w')"
    by (erule bind_InrE)
  have w21: "w2 = w1" using b pygit2_Repository_same by blast
  have w32: "w3 = w2" using c worktree_head_tree_same by blast
  have f34: "fs_only w3 w4" using d fs_stepD[OF fs_step_clean_workdir] by blast
  have f45: "fs_only w4 w5" using e fs_stepD[OF fs_step_makedirs] by blast
  have f15: "fs_only w1 w5" using f34 f45 w21 w32 fs_only_trans by blast
  have w5: "w' = w5" "wt' = wt\<lparr>wt_obj := Some obj, wt_repo := Some repo\<rparr>"
    using rest5 by (auto simp: ret_def)
  have repo: "repo = wt_git_repository wt" using b pygit2_Repository_Inr by blast
  from a show ?thesis
  proof (rule add_worktree_Inr)
    fix r hc es es'
    assume h: "obj = wt_name wt" "disk w (wt_git_repository wt) = Some (Repo r)"
      "branches r (head r) = Some hc" "branches r (wt_name wt) = None"
      "wt_name wt \<notin> set (worktrees r)" "tmp w (temp_directory wt) = Some es"
      "w1 = w\<lparr>tmp := (tmp w)(temp_directory wt \<mapsto> es'),
              disk := (disk w)(wt_git_repository wt \<mapsto>
                 Repo (r\<lparr>branches := (branches r)(wt_name wt \<mapsto> hc),
                         worktrees := wt_name wt # worktrees r\<rparr>))\<rparr>"
    have dom1: "dom (tmp w1) = dom (tmp w)" using h(6,7) by auto
    show ?thesis
      apply (rule that[of r hc])
      using h w5 repo f15 dom1
      by (auto simp: fs_only_def frame_def same_env_def)
  qed
qed

lemma exit_ok:
  assumes "wt_obj wt = Some n" "wt_name wt = n" "wt_git_repository wt = h" "temp_directory wt = td"
    and "tmp w td \<noteq> None" "disk w h = Some (Repo r)" "branches r n \<noteq> None" "n \<noteq> head r"
    and "\<not> faults w Rmtree" "\<not> faults w Prune" "\<not> faults w BranchDelete"
  shows "TemporaryWorktree_exit wt w =
           (Inr (), w\<lparr>tmp := (tmp w)(td := None),
                      disk := (disk w)(h \<mapsto> Repo (r\<lparr>worktrees := removeAll n (worktrees r),
                                                     branches := (branches r)(n := None)\<rparr>))\<rparr>)"
  using assms
  by (auto simp: TemporaryWorktree_exit_def bind_def shutil_rmtree_temp_def prim_def
        worktree_prune_def lookup_branch_delete_def get_repo_def put_repo_def raise_def ret_def)

lemma exit_Inr:
  assumes "TemporaryWorktree_exit wt w = (Inr u, w')"
    and "wt_obj wt = Some n" "wt_name wt = n" "wt_git_repository wt = h" "temp_directory wt = td"
  obtains r where "disk w h = Some (Repo r)" "branches r n \<noteq> None"
    "w' = w\<lparr>tmp := (tmp w)(td := None),
             disk := (disk w)(h \<mapsto> Repo (r\<lparr>worktrees := removeAll n (worktrees r),
                                             branches := (branches r)(n := None)\<rparr>))\<rparr>"
  using assms
  by (auto simp: TemporaryWorktree_exit_def bind_def shutil_rmtree_temp_def prim_def
        worktree_prune_def lookup_branch_delete_def get_repo_def put_repo_def raise_def ret_def
        split: if_splits option.splits dirstate.splits prod.splits sum.splits)

lemma exit_Inl:
  assumes "TemporaryWorktree_exit wt w = (Inl e, w')"
  shows "frame w w' \<and> branch_tip w' = branch_tip w \<and> tmp_next w' = tmp_next w"
  using assms
  by (auto simp: TemporaryWorktree_exit_def bind_def shutil_rmtree_temp_def prim_def
        worktree_prune_def lookup_branch_delete_def get_repo_def put_repo_def raise_def ret_def
        frame_def same_env_def branch_tip_def fun_eq_iff
        split: if_splits option.splits dirstate.splits prod.splits sum.splits)

lemma commit_through_worktree_alt:
  "commit_through_worktree self p m a br =
     bind (git_repository self) (\<lambda>(h, self1). in_worktree h self1 p m a br)"
  by (simp add: commit_through_worktree_def in_worktree_def)

lemma git_repository_existing:
  assumes "cached_git_repository self = None" "disk w (git_repository_path self) = Some d"
  shows "git_repository self w =
     (if faults w OpenRepository then (Inl (Fault OpenRepository), w)
      else case d of
             Repo r \<Rightarrow> (Inr (git_repository_path self,
                             self\<lparr>cached_git_repository := Some (git_repository_path self)\<rparr>), w)
           | PlainDir \<Rightarrow> (Inl (GitError (git_repository_path self)), w))"
  using assms
  by (simp add: git_repository_def is_extracted_def bind_def pygit2_Repository_def prim_def
        get_repo_def ret_def split: dirstate.splits)

lemma git_repository_fresh:
  assumes "cached_git_repository self = None" "disk w (git_repository_path self) = None"
    and "\<not> faults w MakeDirs" "\<not> faults w InitRepository" "\<not> faults w OpenRepository"
        "\<not> faults w TreeBuilderWrite" "\<not> faults w CreateCommit"
  shows "git_repository self w =
     (Inr (git_repository_path self,
           self\<lparr>cached_git_repository := Some (git_repository_path self)\<rparr>),
      w\<lparr>disk := (disk w)(git_repository_path self \<mapsto> Repo (fresh_repository (clock w)))\<rparr>)"
  using assms
  by (simp add: git_repository_def is_extracted_def bind_def pygit2_Repository_def prim_def
        get_repo_def put_repo_def ret_def disk_makedirs_def init_repository_def
        treebuilder_write_def create_commit_def get_author_apply author_sig_def
        fresh_repository_def root_commit_def)

lemma git_repository_Inr:
  assumes "git_repository self w = (Inr (h, self1), w1)"
  shows "cached_git_repository self1 = Some h
       \<and> git_repository_path self1 = git_repository_path self
       \<and> ((cached_git_repository self = Some h \<and> self1 = self \<and> w1 = w)
          \<or> (cached_git_repository self = None \<and> h = git_repository_path self
              \<and> self1 = self\<lparr>cached_git_repository := Some h\<rparr>
              \<and> ((\<exists>r. disk w h = Some (Repo r) \<and> w1 = w)
                 \<or> (disk w h = None
                     \<and> w1 = w\<lparr>disk := (disk w)(h \<mapsto> Repo (fresh_repository (clock w)))\<rparr>))))"
proof (cases "cached_git_repository self")
  case (Some h')
  then show ?thesis using assms by (simp add: git_repository_cached)
next
  case None
  show ?thesis
  proof (cases "disk w (git_repository_path self)")
    case (Some d)
    then show ?thesis using assms None
      by (auto simp: git_repository_existing split: if_splits dirstate.splits)
  next
    case N: None
    have nf: "\<not> faults w MakeDirs \<and> \<not> faults w InitRepository \<and> \<not> faults w OpenRepository \<and>
        \<not> faults w TreeBuilderWrite \<and> \<not> faults w CreateCommit"
      using assms None N
      by (auto simp: git_repository_def is_extracted_def bind_def pygit2_Repository_def prim_def
        get_repo_def put_repo_def ret_def disk_makedirs_def init_repository_def
        treebuilder_write_def create_commit_def get_author_apply
        split: if_splits)
    then show ?thesis using assms None N by (auto simp: git_repository_fresh)
  qed
qed

lemma find_or_create_branch_apply:
  assumes "git_repository self w = (Inr (h, self1), w1)" "disk w1 h = Some (Repo r)"
  shows "find_or_create_branch self n w =
     (case branches r n of
        Some c \<Rightarrow> (Inr (\<lparr>branch_repo = h, branch_name = n, target = c\<rparr>, self1), w1)
      | None \<Rightarrow>
          (case branches r (head r) of
             None \<Rightarrow> (Inl (GitError ''HEAD''), w1)
           | Some hc \<Rightarrow>
               if faults w1 CreateBranch then (Inl (Fault CreateBranch), w1)
               else (Inr (\<lparr>branch_repo = h, branch_name = n, target = hc\<rparr>, self1),
                     w1\<lparr>disk := (disk w1)(h \<mapsto> Repo (r\<lparr>branches := (branches r)(n \<mapsto> hc)\<rparr>))\<rparr>)))"
proof -
  have c: "cached_git_repository self1 = Some h" using git_repository_Inr[OF assms(1)] by simp
  show ?thesis
    unfolding find_or_create_branch_def
    by (simp add: assms(1) git_repository_cached[OF c] bind_apply branches_get_def
          get_repo_def assms(2) ret_def head_peel_def raise_def create_branch_def prim_def put_repo_def
          split: option.splits)
qed

lemma try_finally_apply:
  "try_finally body fin w =
     (case body w of
        (r, w1) \<Rightarrow> (case fin w1 of (Inl e, w2) \<Rightarrow> (Inl e, w2) | (Inr u, w2) \<Rightarrow> (r, w2)))"
  by (simp add: try_finally_def)

lemma in_worktree_apply:
  "in_worktree h self1 p msg author br w =
     (case TemporaryWorktree_init h w of
        (Inl e, w2) \<Rightarrow> (Inl e, w2)
      | (Inr wt, w2) \<Rightarrow>
          (case TemporaryWorktree_enter wt w2 of
             (Inl e, w3) \<Rightarrow> (Inl e, w3)
           | (Inr worktree, w3) \<Rightarrow>
               (case commit_body self1 worktree p msg author br w3 of
                  (r, w4) \<Rightarrow>
                    (case TemporaryWorktree_exit worktree w4 of
                       (Inl e, w5) \<Rightarrow> (Inl e, w5)
                     | (Inr u, w5) \<Rightarrow>
                         (case r of Inl e \<Rightarrow> (Inl e, w5) | Inr c \<Rightarrow> (Inr (c, self1), w5))))))"
  by (simp add: in_worktree_def bind_apply try_finally_apply ret_def
        split: prod.splits sum.splits)

lemma init_Inr:
  assumes "TemporaryWorktree_init h w = (Inr wt, w2)"
  shows "wt = new_worktree h (uuid_hex (uuids w (uuid_next w))) (tmp_next w)
       \<and> disk w2 = disk w \<and> frame w w2 \<and> tmp_next w2 = Suc (tmp_next w)
       \<and> tmp w2 = (tmp w)(tmp_next w \<mapsto> [])"
  using assms by (auto simp: init_apply frame_def same_env_def split: if_splits)

lemma new_worktree_sel:
  "wt_git_repository (new_worktree h n td) = h" "wt_name (new_worktree h n td) = n"
  "temp_directory (new_worktree h n td) = td" "wt_path (new_worktree h n td) = n"
  "wt_obj (new_worktree h n td) = None"
  by (simp_all add: new_worktree_def)

lemma repo_restore:
  assumes "n \<notin> set (worktrees r)" "branches r n = None" "bn \<noteq> n"
  shows "r\<lparr>branches := (branches r)(n \<mapsto> hc), worktrees := n # worktrees r\<rparr>
          \<lparr>branches := (branches r)(n \<mapsto> hc, bn \<mapsto> c)\<rparr>
          \<lparr>worktrees := removeAll n (n # worktrees r),
           branches := ((branches r)(n \<mapsto> hc, bn \<mapsto> c))(n := None)\<rparr>
         = r\<lparr>branches := (branches r)(bn \<mapsto> c)\<rparr>"
  using assms by (intro repository.equality) (auto simp: fun_eq_iff)

lemma repo_restore0:
  assumes "n \<notin> set (worktrees r)" "branches r n = None"
  shows "r\<lparr>branches := (branches r)(n \<mapsto> hc), worktrees := n # worktrees r\<rparr>
          \<lparr>worktrees := removeAll n (n # worktrees r),
           branches := ((branches r)(n \<mapsto> hc))(n := None)\<rparr>
         = r"
  using assms by (intro repository.equality) (auto simp: fun_eq_iff)

lemma try_finally_InrE:
  assumes "try_finally b f w = (Inr x, w')"
  obtains w1 u where "b w = (Inr x, w1)" "f w1 = (Inr u, w')"
  using assms by (auto simp: try_finally_def split: prod.splits sum.splits)

lemma in_worktree_Inr:
  assumes "in_worktree h self1 p msg author br w = (Inr (c, s), w')"
  obtains r hc tree where
    "s = self1" "disk w h = Some (Repo r)" "branches r (head r) = Some hc"
    "c = Commit tree (author_sig author (clock w)) (robot (clock w)) msg [target br]"
    "frame w w'" "tmp_next w' = Suc (tmp_next w)"
    "branch_repo br = h \<and> branches r (branch_name br) \<noteq> None \<longrightarrow>
       disk w' = (disk w)(h \<mapsto> Repo (r\<lparr>branches := (branches r)(branch_name br \<mapsto> c)\<rparr>))"
proof -
  let ?n = "uuid_hex (uuids w (uuid_next w))"
  let ?td = "tmp_next w"
  from assms[unfolded in_worktree_def] obtain wt w2 where
    i: "TemporaryWorktree_init h w = (Inr wt, w2)" and
    rest1: "bind (TemporaryWorktree_enter wt) (\<lambda>worktree.
       bind (try_finally (commit_body self1 worktree p msg author br)
                       (TemporaryWorktree_exit worktree)) (\<lambda>c.
       ret (c, self1))) w2 = (Inr (c, s), w')"
    by (erule bind_InrE)
  from rest1 obtain worktree w3 where
    en: "TemporaryWorktree_enter wt w2 = (Inr worktree, w3)" and
    rest2: "bind (try_finally (commit_body self1 worktree p msg author br)
                       (TemporaryWorktree_exit worktree)) (\<lambda>c.
       ret (c, self1)) w3 = (Inr (c, s), w')"
    by (erule bind_InrE)
  from rest2 obtain c' w5 where
    tf: "try_finally (commit_body self1 worktree p msg author br)
                       (TemporaryWorktree_exit worktree) w3 = (Inr c', w5)" and
    rest3: "ret (c', self1) w5 = (Inr (c, s), w')"
    by (erule bind_InrE)
  have s: "s = self1" and cc: "c' = c" and ww: "w5 = w'" using rest3 by (auto simp: ret_def)
  from tf[unfolded cc ww] obtain w4 u where
    b: "commit_body self1 worktree p msg author br w3 = (Inr c, w4)" and
    ex: "TemporaryWorktree_exit worktree w4 = (Inr u, w')"
    by (erule try_finally_InrE)
  from init_Inr[OF i] have wt: "wt = new_worktree h ?n ?td" and d2: "disk w2 = disk w"
    and f2: "frame w w2" and n2: "tmp_next w2 = Suc (tmp_next w)" by auto
  from en obtain r hc where
    wk: "worktree = wt\<lparr>wt_obj := Some (wt_name wt), wt_repo := Some (wt_git_repository wt)\<rparr>"
    and r: "disk w2 (wt_git_repository wt) = Some (Repo r)"
    and hc: "branches r (head r) = Some hc" and nn: "branches r (wt_name wt) = None"
    and nw: "wt_name wt \<notin> set (worktrees r)"
    and d3: "disk w3 = (disk w2)(wt_git_repository wt \<mapsto>
                  Repo (r\<lparr>branches := (branches r)(wt_name wt \<mapsto> hc),
                          worktrees := wt_name wt # worktrees r\<rparr>))"
    and f3: "frame w2 w3" and n3: "tmp_next w3 = tmp_next w2"
    by (rule enter_Inr)
  have sel: "wt_git_repository wt = h" "wt_name wt = ?n" "temp_directory wt = ?td"
    using wt by (simp_all add: new_worktree_sel)
  have wsel: "wt_obj worktree = Some ?n" "wt_name worktree = ?n" "wt_git_repository worktree = h"
    "temp_directory worktree = ?td" using wk sel by simp_all
  from b obtain tree w1 ra rb where
    st: "stage worktree p w3 = (Inr tree, w1)" and f31: "fs_only w3 w1"
    and c: "c = Commit tree (author_sig author (clock w3)) (robot (clock w3)) msg [target br]"
    and rb: "disk w3 (branch_repo br) = Some (Repo rb)" and bb: "branches rb (branch_name br) \<noteq> None"
    and w4: "w4 = w1\<lparr>disk := (disk w3)(branch_repo br \<mapsto>
                  Repo (rb\<lparr>branches := (branches rb)(branch_name br \<mapsto> c)\<rparr>))\<rparr>"
    by (rule commit_body_Inr)
  have f14: "frame w1 w4" "tmp_next w4 = tmp_next w1" using w4 by (simp_all add: frame_def same_env_def)
  from ex wsel obtain r4 where r4: "disk w4 h = Some (Repo r4)"
    and w5: "w' = w4\<lparr>tmp := (tmp w4)(?td := None),
             disk := (disk w4)(h \<mapsto> Repo (r4\<lparr>worktrees := removeAll ?n (worktrees r4),
                                             branches := (branches r4)(?n := None)\<rparr>))\<rparr>"
    by (rule exit_Inr)
  have f45: "frame w4 w'" "tmp_next w' = tmp_next w4" using w5 by (simp_all add: frame_def same_env_def)
  have fr: "frame w w'"
    using f2 f3 fs_only_frame[OF f31] f14(1) f45(1) frame_trans by blast
  have ck: "clock w3 = clock w" using f2 f3 by (simp add: frame_def same_env_def)
  have tn: "tmp_next w' = Suc (tmp_next w)"
    using n2 n3 f31 f14(2) f45(2) by (simp add: fs_only_def)
  have dk: "disk w' = (disk w)(h \<mapsto> Repo (r\<lparr>branches := (branches r)(branch_name br \<mapsto> c)\<rparr>))"
    if br: "branch_repo br = h" and ex': "branches r (branch_name br) \<noteq> None"
  proof -
    have ne: "branch_name br \<noteq> ?n" using ex' nn sel by auto
    have rb': "rb = r\<lparr>branches := (branches r)(?n \<mapsto> hc), worktrees := ?n # worktrees r\<rparr>"
      using rb d3 br sel by simp
    have r4': "r4 = rb\<lparr>branches := (branches rb)(branch_name br \<mapsto> c)\<rparr>"
      using r4 w4 br by simp
    have "disk w' = (disk w)(h \<mapsto> Repo (r4\<lparr>worktrees := removeAll ?n (worktrees r4),
                                             branches := (branches r4)(?n := None)\<rparr>))"
      using w5 w4 d3 d2 br sel by simp
    also have "r4\<lparr>worktrees := removeAll ?n (worktrees r4), branches := (branches r4)(?n := None)\<rparr>
        = r\<lparr>branches := (branches r)(branch_name br \<mapsto> c)\<rparr>"
      unfolding r4' rb' using repo_restore[of ?n r "branch_name br" hc c] nw nn ne sel by simp
    finally show ?thesis .
  qed
  show ?thesis
    apply (rule that[of r hc tree])
    using s r d2 sel hc c ck fr tn dk by auto
qed

lemma in_worktree_body_fails:
  assumes i: "TemporaryWorktree_init h w = (Inr wt, w2)"
    and en: "TemporaryWorktree_enter wt w2 = (Inr worktree, w3)"
    and b: "commit_body self1 worktree p msg author br w3 = (Inl e, w4)"
  shows "(\<forall>p' n'. (p', n') \<noteq> (h, wt_name wt) \<longrightarrow>
            branch_tip (snd (in_worktree h self1 p msg author br w)) p' n' = branch_tip w p' n')
       \<and> (\<not> faults w Rmtree \<and> \<not> faults w Prune \<and> \<not> faults w BranchDelete \<longrightarrow>
            (\<exists>w'. in_worktree h self1 p msg author br w = (Inl e, w') \<and> disk w' = disk w \<and>
                  tmp w' (temp_directory wt) = None \<and> frame w w'))"
proof -
  let ?n = "uuid_hex (uuids w (uuid_next w))"
  let ?td = "tmp_next w"
  from init_Inr[OF i] have wt: "wt = new_worktree h ?n ?td" and d2: "disk w2 = disk w"
    and f2: "frame w w2" by auto
  from en obtain r hc where
    wk: "worktree = wt\<lparr>wt_obj := Some (wt_name wt), wt_repo := Some (wt_git_repository wt)\<rparr>"
    and r: "disk w2 (wt_git_repository wt) = Some (Repo r)"
    and hc: "branches r (head r) = Some hc" and nn: "branches r (wt_name wt) = None"
    and nw: "wt_name wt \<notin> set (worktrees r)"
    and d3: "disk w3 = (disk w2)(wt_git_repository wt \<mapsto>
                  Repo (r\<lparr>branches := (branches r)(wt_name wt \<mapsto> hc),
                          worktrees := wt_name wt # worktrees r\<rparr>))"
    and t3: "tmp w3 (temp_directory wt) \<noteq> None"
    and f3: "frame w2 w3"
    by (rule enter_Inr)
  have sel: "wt_git_repository wt = h" "wt_name wt = ?n" "temp_directory wt = ?td"
    using wt by (simp_all add: new_worktree_sel)
  have wsel: "wt_obj worktree = Some ?n" "wt_name worktree = ?n" "wt_git_repository worktree = h"
    "temp_directory worktree = ?td" using wk sel by simp_all
  have f34: "fs_only w3 w4" using commit_body_Inl[OF b] .
  then have d4: "disk w4 = disk w3" and t4: "tmp w4 ?td \<noteq> None"
    using t3 sel by (auto simp: fs_only_def)
  let ?r3 = "r\<lparr>branches := (branches r)(?n \<mapsto> hc), worktrees := ?n # worktrees r\<rparr>"
  have r3: "disk w4 h = Some (Repo ?r3)" using d4 d3 sel by simp
  have nh: "?n \<noteq> head r" using hc nn sel by auto
  have fl: "faults w4 = faults w"
    using f2 f3 fs_only_frame[OF f34] by (simp add: frame_def same_env_def)
  have f04: "frame w w4" using f2 f3 fs_only_frame[OF f34] frame_trans by blast
  have bt4: "branch_tip w4 p' n' = branch_tip w p' n'" if "(p', n') \<noteq> (h, ?n)" for p' n'
    using that d4 d3 d2 sel r by (auto simp: branch_tip_def)
  have res: "in_worktree h self1 p msg author br w =
      (case TemporaryWorktree_exit worktree w4 of
         (Inl e', w5) \<Rightarrow> (Inl e', w5) | (Inr u, w5) \<Rightarrow> (Inl e, w5))"
    by (simp add: in_worktree_apply i en b split: prod.splits sum.splits)
  have part1: "branch_tip (snd (in_worktree h self1 p msg author br w)) p' n' = branch_tip w p' n'"
    if ne: "(p', n') \<noteq> (h, ?n)" for p' n'
  proof (cases "TemporaryWorktree_exit worktree w4")
    case (Pair rx w5)
    show ?thesis
    proof (cases rx)
      case (Inl e')
      then have "branch_tip w5 = branch_tip w4" using exit_Inl Pair by blast
      then show ?thesis using res Pair Inl bt4[OF ne] by simp
    next
      case (Inr u)
      with Pair wsel obtain r4 where r4: "disk w4 h = Some (Repo r4)"
        and w5: "w5 = w4\<lparr>tmp := (tmp w4)(?td := None),
             disk := (disk w4)(h \<mapsto> Repo (r4\<lparr>worktrees := removeAll ?n (worktrees r4),
                                             branches := (branches r4)(?n := None)\<rparr>))\<rparr>"
        using exit_Inr[of worktree w4 u w5 ?n h ?td] by blast
      have "branch_tip w5 p' n' = branch_tip w4 p' n'"
        using ne r4 w5 by (auto simp: branch_tip_def)
      then show ?thesis using res Pair Inr bt4[OF ne] by simp
    qed
  qed
  have part2: "\<exists>w'. in_worktree h self1 p msg author br w = (Inl e, w') \<and> disk w' = disk w \<and>
                  tmp w' ?td = None \<and> frame w w'"
    if nf: "\<not> faults w Rmtree" "\<not> faults w Prune" "\<not> faults w BranchDelete"
  proof -
    have x: "TemporaryWorktree_exit worktree w4 =
           (Inr (), w4\<lparr>tmp := (tmp w4)(?td := None),
                      disk := (disk w4)(h \<mapsto> Repo (?r3\<lparr>worktrees := removeAll ?n (worktrees ?r3),
                                                     branches := (branches ?r3)(?n := None)\<rparr>))\<rparr>)"
      using exit_ok[OF wsel(1,2,3,4) t4 r3, of] nh nf fl by simp
    have rr: "?r3\<lparr>worktrees := removeAll ?n (worktrees ?r3), branches := (branches ?r3)(?n := None)\<rparr> = r"
      using repo_restore0[of ?n r hc] nw nn sel by simp
    have dd: "(disk w4)(h \<mapsto> Repo r) = disk w"
      using d4 d3 d2 r sel by (auto simp: fun_eq_iff)
    show ?thesis
      using res x rr dd f04 by (simp add: frame_def same_env_def)
  qed
  show ?thesis using part1 part2 sel by auto
qed

lemma in_worktree_release_fails:
  assumes i: "TemporaryWorktree_init h w = (Inr wt, w2)"
    and en: "TemporaryWorktree_enter wt w2 = (Inr worktree, w3)"
    and b: "commit_body self1 worktree p msg author br w3 = (r, w4)"
    and x: "TemporaryWorktree_exit worktree w4 = (Inl e, w5)"
  shows "in_worktree h self1 p msg author br w = (Inl e, w5) \<and> branch_tip w5 = branch_tip w4
       \<and> (\<forall>c. r = Inr c \<longrightarrow> branch_tip w5 (branch_repo br) (branch_name br) = Some c)"
proof -
  have a: "in_worktree h self1 p msg author br w = (Inl e, w5)"
    by (simp add: in_worktree_apply i en b x)
  have bt: "branch_tip w5 = branch_tip w4" using exit_Inl[OF x] by simp
  have "branch_tip w4 (branch_repo br) (branch_name br) = Some c" if "r = Inr c" for c
  proof -
    from b that have "commit_body self1 worktree p msg author br w3 = (Inr c, w4)" by simp
    then show ?thesis
      by (rule commit_body_Inr) (simp add: branch_tip_def)
  qed
  then show ?thesis using a bt by simp
qed

lemma hex_digit_noslash: "k < 16 \<Longrightarrow> hex_digit k \<noteq> CHR ''/''"
proof -
  assume "k < 16"
  then have "k \<in> set [0..<16]" by simp
  then show ?thesis
    unfolding hex_digit_def by (simp add: upt_rec[of _ "16"] del: set_upt) (auto)
qed

lemma uuid_hex_length: "length (uuid_hex u) = 32"
  by (simp add: uuid_hex_def)

lemma uuid_hex_noslash: "CHR ''/'' \<notin> set (uuid_hex u)"
proof -
  have "unat (and x (15::128 word)) < 16" for x
  proof -
    have "and x 15 \<le> (15::128 word)" by (rule word_and_le1)
    then have "unat (and x 15) \<le> unat (15::128 word)" by (simp add: word_le_nat_alt)
    then show ?thesis by simp
  qed
  then have "hex_digit (unat (and x (15::128 word))) \<noteq> CHR ''/''" for x
    using hex_digit_noslash by blast
  then show ?thesis
    by (auto simp: uuid_hex_def) metis
qed

lemma uuid_hex_nonempty: "uuid_hex u \<noteq> []"
  using uuid_hex_length[of u] by auto

lemma split_path_extracted:
  assumes "n \<noteq> []" "CHR ''/'' \<notin> set n"
  shows "split_path (os_path_join n EXTRACTED_PREFIX) = [n, ''extracted'']"
  using split_path_join[OF assms, of "''extracted''"]
  by (simp add: EXTRACTED_PREFIX_def split_path_def)

lemma rename_dotgit_none:
  "list_all (\<lambda>f. os_path_basename f \<noteq> ''.git'') files \<Longrightarrow> rename_dotgit wt files = ret ()"
  by (induction files) (auto simp: bind_def ret_def fun_eq_iff)

lemma enter_ok:
  assumes n: "n \<noteq> []" "CHR ''/'' \<notin> set n"
    and r: "disk w h = Some (Repo r)" "branches r (head r) = Some hc" "commit_tree hc = []"
      "branches r n = None" "n \<notin> set (worktrees r)"
    and t: "tmp w td = Some []"
    and nf: "\<not> faults w AddWorktree" "\<not> faults w OpenRepository" "\<not> faults w MakeDirs"
  shows "\<exists>w'. TemporaryWorktree_enter (new_worktree h n td) w =
           (Inr ((new_worktree h n td)\<lparr>wt_obj := Some n, wt_repo := Some h\<rparr>), w')
         \<and> tmp w' td = Some [FsEntry n (Dir [FsEntry ''.git'' (File n),
                                              FsEntry ''extracted'' (Dir [])])]"
  using assms
  by (simp add: TemporaryWorktree_enter_def new_worktree_def bind_apply add_worktree_def prim_def
        get_repo_def tmp_root_def tmp_store_def put_repo_def ret_def raise_def
        pygit2_Repository_def worktree_head_tree_def os_makedirs_def
        split_path_single split_path_extracted)

lemma stage_ok:
  assumes n: "n \<noteq> []" "CHR ''/'' \<notin> set n"
    and wt: "temp_directory wt = td" "wt_path wt = n"
      "extraction_target_path wt = os_path_join n EXTRACTED_PREFIX"
    and t: "tmp w td = Some [FsEntry n (Dir [FsEntry ''.git'' (File n),
                                              FsEntry ''extracted'' (Dir [])])]"
    and u: "uploads w src = Some (Archive content)"
    and c: "list_all (\<lambda>f. os_path_basename f \<noteq> ''.git'') (sandbox_files n content)"
      "\<not> has_dotgit content"
    and nf: "\<not> faults w Extract" "\<not> faults w IndexRead" "\<not> faults w IndexAddAll"
      "\<not> faults w IndexWrite" "\<not> faults w WriteTree"
  shows "\<exists>w'. stage wt src w = (Inr (index_entries [FsEntry ''extracted'' (Dir content)]), w')"
  using assms
  by (simp add: stage_def bind_apply extract_extension_to_dest_def prim_def tmp_root_def
        tmp_store_def get_all_files_def ret_def raise_def rename_dotgit_none
        sandbox_files_def index_add_all_def index_write_tree_def
        split_path_single split_path_extracted)

lemma commit_body_ok:
  assumes st: "stage wt src w = (Inr tree, w1)"
    and r: "disk w (wt_git_repository wt) = Some (Repo ra)"
      "disk w (branch_repo br) = Some (Repo rb)" "branches rb (branch_name br) \<noteq> None"
    and nf: "\<not> faults w CreateCommit" "\<not> faults w SetTarget"
  shows "commit_body self wt src msg author br w =
     (Inr (Commit tree (author_sig author (clock w)) (robot (clock w)) msg [target br]),
      w1\<lparr>disk := (disk w)(branch_repo br \<mapsto>
             Repo (rb\<lparr>branches := (branches rb)(branch_name br \<mapsto>
                Commit tree (author_sig author (clock w)) (robot (clock w)) msg [target br])\<rparr>))\<rparr>)"
proof -
  have f: "fs_only w w1" using fs_stepD[OF fs_step_stage st] .
  then have e: "disk w1 = disk w" "clock w1 = clock w" "faults w1 = faults w"
    by (auto simp: fs_only_def same_env_def)
  show ?thesis using assms e
    by (auto simp: commit_body_apply create_commit_None set_target_apply)
qed

lemma commit_body_corrupt:
  "uploads w src = Some Corrupt \<Longrightarrow> \<not> faults w Extract \<Longrightarrow>
   commit_body self wt src msg author br w = (Inl (ExtractionError src), w)"
  by (simp add: commit_body_apply stage_def bind_apply extract_extension_to_dest_def prim_def)



lemma stage_fault_write_tree:
  assumes n: "n \<noteq> []" "CHR ''/'' \<notin> set n"
    and wt: "temp_directory wt = td" "wt_path wt = n"
      "extraction_target_path wt = os_path_join n EXTRACTED_PREFIX"
    and t: "tmp w td = Some [FsEntry n (Dir [FsEntry ''.git'' (File n),
                                              FsEntry ''extracted'' (Dir [])])]"
    and u: "uploads w src = Some (Archive content)"
    and c: "list_all (\<lambda>f. os_path_basename f \<noteq> ''.git'') (sandbox_files n content)"
      "\<not> has_dotgit content"
    and nf: "\<not> faults w Extract" "\<not> faults w IndexRead" "\<not> faults w IndexAddAll"
      "\<not> faults w IndexWrite" "faults w WriteTree"
  shows "\<exists>w'. stage wt src w = (Inl (Fault WriteTree), w')"
  using assms
  by (simp add: stage_def bind_apply extract_extension_to_dest_def prim_def tmp_root_def
        tmp_store_def get_all_files_def ret_def raise_def rename_dotgit_none
        sandbox_files_def index_add_all_def index_write_tree_def
        split_path_single split_path_extracted)

lemma sandbox_run_ok:
  assumes r: "disk w h = Some (Repo r)" "branches r (head r) = Some hc" "commit_tree hc = []"
      "branches r (uuid_hex (uuids w (uuid_next w))) = None"
      "uuid_hex (uuids w (uuid_next w)) \<notin> set (worktrees r)"
    and br: "branch_repo br = h" "branches r (branch_name br) \<noteq> None"
    and u: "uploads w src = Some (Archive content)"
      "list_all (\<lambda>f. os_path_basename f \<noteq> ''.git'')
         (sandbox_files (uuid_hex (uuids w (uuid_next w))) content)"
      "\<not> has_dotgit content"
    and nf: "\<not> faults w MkdTemp" "\<not> faults w AddWorktree" "\<not> faults w OpenRepository"
      "\<not> faults w MakeDirs" "\<not> faults w Extract" "\<not> faults w IndexRead"
      "\<not> faults w IndexAddAll" "\<not> faults w IndexWrite" "\<not> faults w WriteTree"
      "\<not> faults w CreateCommit" "\<not> faults w SetTarget"
  shows "\<exists>wt w2 worktree w3 w4.
           TemporaryWorktree_init h w = (Inr wt, w2) \<and>
           TemporaryWorktree_enter wt w2 = (Inr worktree, w3) \<and>
           commit_body self1 worktree src msg author br w3 =
             (Inr (Commit (index_entries [FsEntry ''extracted'' (Dir content)])
                     (author_sig author (clock w)) (robot (clock w)) msg [target br]), w4) \<and>
           wt_name worktree = uuid_hex (uuids w (uuid_next w)) \<and>
           wt_obj worktree = Some (uuid_hex (uuids w (uuid_next w))) \<and>
           wt_git_repository worktree = h \<and> temp_directory worktree = tmp_next w \<and>
           faults w4 = faults w \<and> tmp w4 (tmp_next w) \<noteq> None \<and>
           (\<exists>r4. disk w4 h = Some (Repo r4) \<and>
                 branches r4 (uuid_hex (uuids w (uuid_next w))) \<noteq> None \<and>
                 uuid_hex (uuids w (uuid_next w)) \<noteq> head r4)"
proof -
  let ?n = "uuid_hex (uuids w (uuid_next w))"
  let ?td = "tmp_next w"
  let ?wt = "new_worktree h ?n ?td"
  let ?w2 = "w\<lparr>tmp := (tmp w)(?td \<mapsto> []), tmp_next := Suc ?td, uuid_next := Suc (uuid_next w)\<rparr>"
  let ?wk = "?wt\<lparr>wt_obj := Some ?n, wt_repo := Some h\<rparr>"
  have n: "?n \<noteq> []" "CHR ''/'' \<notin> set ?n" by (simp_all add: uuid_hex_nonempty uuid_hex_noslash)
  have i: "TemporaryWorktree_init h w = (Inr ?wt, ?w2)" using nf(1) by (simp add: init_apply)
  have "\<exists>w'. TemporaryWorktree_enter ?wt ?w2 = (Inr ?wk, w')
         \<and> tmp w' ?td = Some [FsEntry ?n (Dir [FsEntry ''.git'' (File ?n),
                                              FsEntry ''extracted'' (Dir [])])]"
    by (rule enter_ok[OF n, of ?w2 h r hc]) (use r nf in simp_all)
  then obtain w3 where en: "TemporaryWorktree_enter ?wt ?w2 = (Inr ?wk, w3)"
    and t3: "tmp w3 ?td = Some [FsEntry ?n (Dir [FsEntry ''.git'' (File ?n),
                                              FsEntry ''extracted'' (Dir [])])]" by blast
  from en obtain r' hc' where
    r': "disk ?w2 (wt_git_repository ?wt) = Some (Repo r')"
    and hc': "branches r' (head r') = Some hc'"
    and d3: "disk w3 = (disk ?w2)(wt_git_repository ?wt \<mapsto>
                  Repo (r'\<lparr>branches := (branches r')(wt_name ?wt \<mapsto> hc'),
                          worktrees := wt_name ?wt # worktrees r'\<rparr>))"
    and f3: "frame ?w2 w3"
    by (rule enter_Inr)
  have rr: "r' = r" "hc' = hc" using r' hc' r by (simp_all add: new_worktree_sel)
  let ?r3 = "r\<lparr>branches := (branches r)(?n \<mapsto> hc), worktrees := ?n # worktrees r\<rparr>"
  have d3': "disk w3 h = Some (Repo ?r3)" using d3 rr by (simp add: new_worktree_sel)
  have e3: "faults w3 = faults w" "uploads w3 = uploads w" "clock w3 = clock w"
    using f3 by (simp_all add: frame_def same_env_def)
  have ne: "branch_name br \<noteq> ?n" using br(2) r(4) by auto
  have "\<exists>w'. stage ?wk src w3 = (Inr (index_entries [FsEntry ''extracted'' (Dir content)]), w')"
    by (rule stage_ok[OF n, of ?wk ?td w3 src content])
       (use t3 u nf e3 in \<open>simp_all add: new_worktree_def\<close>)
  then obtain w3' where st: "stage ?wk src w3 =
      (Inr (index_entries [FsEntry ''extracted'' (Dir content)]), w3')" by blast
  have f33: "fs_only w3 w3'" using fs_stepD[OF fs_step_stage st] .
  have b: "commit_body self1 ?wk src msg author br w3 =
     (Inr (Commit (index_entries [FsEntry ''extracted'' (Dir content)])
             (author_sig author (clock w3)) (robot (clock w3)) msg [target br]),
      w3'\<lparr>disk := (disk w3)(branch_repo br \<mapsto>
             Repo (?r3\<lparr>branches := (branches ?r3)(branch_name br \<mapsto>
                Commit (index_entries [FsEntry ''extracted'' (Dir content)])
                  (author_sig author (clock w3)) (robot (clock w3)) msg [target br])\<rparr>))\<rparr>)"
    by (rule commit_body_ok[OF st, of ?r3 br ?r3])
       (use d3' br ne nf e3 in \<open>simp_all add: new_worktree_def\<close>)
  have t4: "tmp w3' ?td \<noteq> None" using f33 t3 by (auto simp: fs_only_def)
  have nh: "?n \<noteq> head r" using r(2,4) by auto
  show ?thesis
    apply (rule exI[of _ ?wt], rule exI[of _ ?w2], rule exI[of _ ?wk], rule exI[of _ w3])
    apply (rule exI)
    apply (intro conjI)
             apply (rule i)
            apply (rule en)
           apply (subst e3(3)[symmetric])
           apply (subst e3(3)[symmetric])
           apply (rule b)
    using f33 e3 t4 br nh ne d3' by (auto simp: new_worktree_def fs_only_def same_env_def)
qed

lemma in_worktree_ok:
  assumes r: "disk w h = Some (Repo r)" "branches r (head r) = Some hc" "commit_tree hc = []"
      "branches r (uuid_hex (uuids w (uuid_next w))) = None"
      "uuid_hex (uuids w (uuid_next w)) \<notin> set (worktrees r)"
    and br: "branch_repo br = h" "branches r (branch_name br) \<noteq> None"
    and u: "uploads w src = Some (Archive content)"
      "list_all (\<lambda>f. os_path_basename f \<noteq> ''.git'')
         (sandbox_files (uuid_hex (uuids w (uuid_next w))) content)"
      "\<not> has_dotgit content"
    and nf: "\<not> faults w MkdTemp" "\<not> faults w AddWorktree" "\<not> faults w OpenRepository"
      "\<not> faults w MakeDirs" "\<not> faults w Extract" "\<not> faults w IndexRead"
      "\<not> faults w IndexAddAll" "\<not> faults w IndexWrite" "\<not> faults w WriteTree"
      "\<not> faults w CreateCommit" "\<not> faults w SetTarget"
    and nc: "\<not> faults w Rmtree" "\<not> faults w Prune" "\<not> faults w BranchDelete"
  shows "\<exists>w'. in_worktree h self1 src msg author br w =
           (Inr (Commit (index_entries [FsEntry ''extracted'' (Dir content)])
                   (author_sig author (clock w)) (robot (clock w)) msg [target br], self1), w')"
proof -
  let ?n = "uuid_hex (uuids w (uuid_next w))"
  from sandbox_run_ok[OF r br u nf, of self1 msg author]
  obtain wt w2 worktree w3 w4 r4 where
    i: "TemporaryWorktree_init h w = (Inr wt, w2)" and
    en: "TemporaryWorktree_enter wt w2 = (Inr worktree, w3)" and
    b: "commit_body self1 worktree src msg author br w3 =
             (Inr (Commit (index_entries [FsEntry ''extracted'' (Dir content)])
                     (author_sig author (clock w)) (robot (clock w)) msg [target br]), w4)" and
    sel: "wt_obj worktree = Some ?n" "wt_name worktree = ?n"
      "wt_git_repository worktree = h" "temp_directory worktree = tmp_next w" and
    f: "faults w4 = faults w" and t: "tmp w4 (tmp_next w) \<noteq> None" and
    r4: "disk w4 h = Some (Repo r4)" "branches r4 ?n \<noteq> None" "?n \<noteq> head r4"
    by blast
  have x: "\<exists>w'. TemporaryWorktree_exit worktree w4 = (Inr (), w')"
    using exit_ok[OF sel t r4] nc f by simp
  then obtain w5 where x5: "TemporaryWorktree_exit worktree w4 = (Inr (), w5)" by blast
  show ?thesis
    by (rule exI[of _ w5]) (simp add: in_worktree_apply i en b x5)
qed

lemma commit_through_worktree_cached:
  "cached_git_repository self = Some h \<Longrightarrow>
   commit_through_worktree self p m a br = in_worktree h self p m a br"
  by (simp add: commit_through_worktree_alt fun_eq_iff bind_apply git_repository_cached)

lemma focb_Inr:
  assumes f: "find_or_create_branch self n w = (Inr (br, self1), w1)"
    and c: "cached_git_repository self = None" and p: "git_repository_path self = p"
  obtains r0 r1 where
    "(disk w p = None \<and> r0 = fresh_repository (clock w)) \<or> disk w p = Some (Repo r0)"
    "(branches r0 n = Some (target br) \<and> r1 = r0) \<or>
     (branches r0 n = None \<and> branches r0 (head r0) = Some (target br) \<and>
      r1 = r0\<lparr>branches := (branches r0)(n \<mapsto> target br)\<rparr>)"
    "disk w1 = (disk w)(p \<mapsto> Repo r1)" "branch_repo br = p" "branch_name br = n"
    "self1 = self\<lparr>cached_git_repository := Some p\<rparr>" "frame w w1"
    "tmp w1 = tmp w" "tmp_next w1 = tmp_next w" "uuid_next w1 = uuid_next w"
proof -
  obtain x w0 where g0: "git_repository self w = (Inr x, w0)"
    using f[unfolded find_or_create_branch_def] by (auto elim: bind_InrE)
  obtain h s1 where x: "x = (h, s1)" by (cases x)
  have g: "git_repository self w = (Inr (h, s1), w0)" using g0 x by simp
  from git_repository_Inr[OF g] c p have h: "h = p" and s1: "s1 = self\<lparr>cached_git_repository := Some p\<rparr>"
    and cs: "(\<exists>r. disk w p = Some (Repo r) \<and> w0 = w) \<or>
             (disk w p = None \<and> w0 = w\<lparr>disk := (disk w)(p \<mapsto> Repo (fresh_repository (clock w)))\<rparr>)"
    by auto
  from cs obtain r0 where r0: "disk w0 p = Some (Repo r0)"
    and r0c: "(disk w p = None \<and> r0 = fresh_repository (clock w)) \<or> disk w p = Some (Repo r0)"
    and d0: "disk w0 = (disk w)(p \<mapsto> Repo r0)" and f0: "frame w w0"
    and t0: "tmp w0 = tmp w" "tmp_next w0 = tmp_next w" "uuid_next w0 = uuid_next w"
    by (auto simp: frame_def same_env_def fun_eq_iff)
  note ap = find_or_create_branch_apply[OF g[unfolded h] r0, of n]
  show ?thesis
  proof (cases "branches r0 n")
    case (Some t)
    then have "br = \<lparr>branch_repo = p, branch_name = n, target = t\<rparr>" "self1 = s1" "w1 = w0"
      using f ap by auto
    then show ?thesis
      using that[of r0 r0] r0c Some d0 f0 t0 s1 by simp
  next
    case None
    then obtain hc where hc: "branches r0 (head r0) = Some hc"
      and b: "br = \<lparr>branch_repo = p, branch_name = n, target = hc\<rparr>" "self1 = s1"
      and w1: "w1 = w0\<lparr>disk := (disk w0)(p \<mapsto> Repo (r0\<lparr>branches := (branches r0)(n \<mapsto> hc)\<rparr>))\<rparr>"
      using f ap by (auto split: option.splits if_splits)
    have "frame w w1" using f0 w1 by (simp add: frame_def same_env_def)
    then show ?thesis
      using that[of r0 "r0\<lparr>branches := (branches r0)(n \<mapsto> hc)\<rparr>"] r0c None hc b w1 d0 t0 s1
      by simp
  qed
qed

lemma extract_and_commit_apply:
  assumes "all_files v = f # fs" "map_of BRANCHES (channel v) = Some bn"
  shows "extract_and_commit_from_version v author w =
     (case find_or_create_branch
             \<lparr>git_repository_path = repo_path w (addon_id v) ''addon'',
              cached_git_repository = None\<rparr> bn
             (w\<lparr>language := ''en-US'', search_path := settings_ROOT w\<rparr>) of
        (Inl e, w1) \<Rightarrow> (Inl e, w1\<lparr>language := language w\<rparr>)
      | (Inr (br, repo1), w1) \<Rightarrow>
          (case commit_through_worktree repo1 (current_file_path f) (version_message v f)
                  author br w1 of
             (Inl e, w2) \<Rightarrow> (Inl e, w2\<lparr>language := language w\<rparr>)
           | (Inr (c, repo2), w2) \<Rightarrow>
               if faults w2 VersionUpdate
               then (Inl (Fault VersionUpdate), w2\<lparr>language := language w\<rparr>)
               else (Inr repo2, w2\<lparr>language := language w,
                                   git_hash := (git_hash w2)(version_id v \<mapsto> c)\<rparr>)))"
  using assms
  by (simp add: extract_and_commit_from_version_def bind_apply try_finally_apply get_language_def
        activate_def AddonGitRepository_init_def ret_def raise_def repo_path_def
        version_update_git_hash_def prim_def
        split: prod.splits sum.splits)

lemma extract_and_commit_Inr:
  assumes e: "extract_and_commit_from_version v author w = (Inr repo, w')"
  obtains f fs bn r0 tip tree where
    "all_files v = f # fs" "map_of BRANCHES (channel v) = Some bn"
    "(disk w (repo_path w (addon_id v) ''addon'') = None \<and> r0 = fresh_repository (clock w)) \<or>
     disk w (repo_path w (addon_id v) ''addon'') = Some (Repo r0)"
    "branches r0 bn = Some tip \<or> (branches r0 bn = None \<and> branches r0 (head r0) = Some tip)"
    "disk w' = (disk w)(repo_path w (addon_id v) ''addon'' \<mapsto>
        Repo (r0\<lparr>branches := (branches r0)(bn \<mapsto>
          Commit tree (author_sig author (clock w)) (robot (clock w)) (version_message v f) [tip])\<rparr>))"
    "git_hash w' = (git_hash w)(version_id v \<mapsto>
          Commit tree (author_sig author (clock w)) (robot (clock w)) (version_message v f) [tip])"
    "same_env w w'" "language w' = language w"
proof -
  let ?p = "repo_path w (addon_id v) ''addon''"
  let ?w0 = "w\<lparr>language := ''en-US'', search_path := settings_ROOT w\<rparr>"
  let ?self = "\<lparr>git_repository_path = ?p, cached_git_repository = None\<rparr>"
  obtain f fs where af: "all_files v = f # fs"
    using e by (cases "all_files v")
      (auto simp: extract_and_commit_from_version_def bind_apply try_finally_apply get_language_def
        activate_def AddonGitRepository_init_def ret_def raise_def split: prod.splits sum.splits)
  obtain bn where bn: "map_of BRANCHES (channel v) = Some bn"
    using e af by (cases "map_of BRANCHES (channel v)")
      (auto simp: extract_and_commit_from_version_def bind_apply try_finally_apply get_language_def
        activate_def AddonGitRepository_init_def ret_def raise_def split: prod.splits sum.splits)
  note ap = extract_and_commit_apply[OF af bn, of author w]
  from e ap obtain br repo1 w1 c repo2 w2 where
    fo: "find_or_create_branch ?self bn ?w0 = (Inr (br, repo1), w1)" and
    ct: "commit_through_worktree repo1 (current_file_path f) (version_message v f) author br w1
           = (Inr (c, repo2), w2)" and
    w': "w' = w2\<lparr>language := language w, git_hash := (git_hash w2)(version_id v \<mapsto> c)\<rparr>"
    by (auto split: prod.splits sum.splits if_splits)
  from fo obtain r0 r1 where
    r0: "(disk ?w0 ?p = None \<and> r0 = fresh_repository (clock ?w0)) \<or> disk ?w0 ?p = Some (Repo r0)"
    and r1: "(branches r0 bn = Some (target br) \<and> r1 = r0) \<or>
     (branches r0 bn = None \<and> branches r0 (head r0) = Some (target br) \<and>
      r1 = r0\<lparr>branches := (branches r0)(bn \<mapsto> target br)\<rparr>)"
    and d1: "disk w1 = (disk ?w0)(?p \<mapsto> Repo r1)" and brp: "branch_repo br = ?p"
    and brn: "branch_name br = bn"
    and s1: "repo1 = ?self\<lparr>cached_git_repository := Some ?p\<rparr>" and f1: "frame ?w0 w1"
    by (rule focb_Inr) simp_all
  have ch: "cached_git_repository repo1 = Some ?p" using s1 by simp
  have iw: "in_worktree ?p repo1 (current_file_path f) (version_message v f) author br w1
           = (Inr (c, repo2), w2)"
    using ct commit_through_worktree_cached[OF ch] by simp
  from iw obtain r hc tree where
    "repo2 = repo1" and
    r: "disk w1 ?p = Some (Repo r)" and "branches r (head r) = Some hc"
    and c: "c = Commit tree (author_sig author (clock w1)) (robot (clock w1))
                  (version_message v f) [target br]"
    and f2: "frame w1 w2" and "tmp_next w2 = Suc (tmp_next w1)"
    and d2: "branch_repo br = ?p \<and> branches r (branch_name br) \<noteq> None \<longrightarrow>
       disk w2 = (disk w1)(?p \<mapsto> Repo (r\<lparr>branches := (branches r)(branch_name br \<mapsto> c)\<rparr>))"
    by (rule in_worktree_Inr)
  have rr: "r = r1" using r d1 by simp
  have ex: "branches r1 bn \<noteq> None" using r1 by auto
  have ck: "clock w1 = clock w" using f1 by (simp add: frame_def same_env_def)
  have upd: "r1\<lparr>branches := (branches r1)(bn \<mapsto> c)\<rparr> = r0\<lparr>branches := (branches r0)(bn \<mapsto> c)\<rparr>"
    using r1 by auto
  have dw: "disk w' = (disk w)(?p \<mapsto> Repo (r0\<lparr>branches := (branches r0)(bn \<mapsto> c)\<rparr>))"
    using d2 brp ex rr brn d1 w' upd by simp
  have gh: "git_hash w' = (git_hash w)(version_id v \<mapsto> c)"
    using w' f1 f2 by (simp add: frame_def)
  have se: "same_env w w'" using w' f1 f2 by (simp add: frame_def same_env_def)
  show ?thesis
    apply (rule that[of f fs bn r0 "target br" tree])
    using af bn r0 r1 dw gh se w' c ck by auto
qed

lemma commit_log_parent: "commit_parents c = [p] \<Longrightarrow> commit_log c = c # commit_log p"
  by (cases c) auto

lemma repo_path_same_env: "same_env w w' \<Longrightarrow> repo_path w' a k = repo_path w a k"
  by (simp add: repo_path_def same_env_def)

lemma serial_chain_aux:
  assumes "materialize_serially calls w = (Inr (), w')"
    and "\<forall>(t, v, a) \<in> set calls. addon_id v = aid \<and> map_of BRANCHES (channel v) = Some bn"
    and "disk w (repo_path w aid ''addon'') = Some (Repo r)" "branches r bn = Some tip0"
  shows "\<exists>cs. length cs = length calls
           \<and> branch_tip w' (repo_path w aid ''addon'') bn = Some (last (tip0 # cs))
           \<and> (\<forall>i < length cs. commit_parents (cs ! i) = [(tip0 # cs) ! i])
           \<and> map commit_message cs = map (\<lambda>(t, v, a). version_message v (hd (all_files v))) calls
           \<and> same_env (w\<lparr>clock := clock w'\<rparr>) w'"
  using assms
proof (induction calls arbitrary: w r tip0)
  case Nil
  then show ?case by (auto simp: ret_def branch_tip_def same_env_def)
next
  case (Cons call calls)
  obtain t v a where call: "call = (t, v, a)" by (cases call)
  let ?p = "repo_path w aid ''addon''"
  let ?wt = "w\<lparr>clock := t\<rparr>"
  from Cons.prems(1) call obtain repo w1 where
    e: "extract_and_commit_from_version v a ?wt = (Inr repo, w1)" and
    rest: "materialize_serially calls w1 = (Inr (), w')"
    by (auto simp: bind_apply split: prod.splits sum.splits)
  have va: "addon_id v = aid" "map_of BRANCHES (channel v) = Some bn"
    using Cons.prems(2) call by auto
  have pt: "repo_path ?wt aid ''addon'' = ?p" by (simp add: repo_path_def)
  from e obtain f fs bn' r0 tip tree where
    af: "all_files v = f # fs" and bn': "map_of BRANCHES (channel v) = Some bn'" and
    r0: "(disk ?wt (repo_path ?wt (addon_id v) ''addon'') = None \<and> r0 = fresh_repository (clock ?wt)) \<or>
     disk ?wt (repo_path ?wt (addon_id v) ''addon'') = Some (Repo r0)" and
    tip: "branches r0 bn' = Some tip \<or> (branches r0 bn' = None \<and> branches r0 (head r0) = Some tip)" and
    d1: "disk w1 = (disk ?wt)(repo_path ?wt (addon_id v) ''addon'' \<mapsto>
        Repo (r0\<lparr>branches := (branches r0)(bn' \<mapsto>
          Commit tree (author_sig a (clock ?wt)) (robot (clock ?wt)) (version_message v f) [tip])\<rparr>))" and
    gh: "git_hash w1 = (git_hash ?wt)(version_id v \<mapsto>
          Commit tree (author_sig a (clock ?wt)) (robot (clock ?wt)) (version_message v f) [tip])" and
    se: "same_env ?wt w1" and "language w1 = language ?wt"
    by (rule extract_and_commit_Inr)
  let ?c = "Commit tree (author_sig a (clock ?wt)) (robot (clock ?wt)) (version_message v f) [tip]"
  have bb: "bn' = bn" using bn' va by simp
  have rr: "r0 = r" using r0 Cons.prems(3) va pt by simp
  have tt: "tip = tip0" using tip Cons.prems(4) rr bb by simp
  have p1: "repo_path w1 aid ''addon'' = ?p" using repo_path_same_env[OF se] pt by simp
  let ?r1 = "r\<lparr>branches := (branches r)(bn \<mapsto> ?c)\<rparr>"
  have d1': "disk w1 (repo_path w1 aid ''addon'') = Some (Repo ?r1)"
    using d1 va pt p1 rr bb by simp
  have "\<forall>(t, v, a) \<in> set calls. addon_id v = aid \<and> map_of BRANCHES (channel v) = Some bn"
    using Cons.prems(2) by auto
  from Cons.IH[OF rest this d1', of ?c] obtain cs where
    cs: "length cs = length calls"
      "branch_tip w' (repo_path w1 aid ''addon'') bn = Some (last (?c # cs))"
      "\<forall>i < length cs. commit_parents (cs ! i) = [(?c # cs) ! i]"
      "map commit_message cs = map (\<lambda>(t, v, a). version_message v (hd (all_files v))) calls"
      "same_env (w1\<lparr>clock := clock w'\<rparr>) w'"
    by auto
  have chain: "\<forall>i < length (?c # cs). commit_parents ((?c # cs) ! i) = [(tip0 # ?c # cs) ! i]"
  proof (intro allI impI)
    fix i assume "i < length (?c # cs)"
    then show "commit_parents ((?c # cs) ! i) = [(tip0 # ?c # cs) ! i]"
      using cs(3) tt by (cases i) auto
  qed
  have env: "same_env (w\<lparr>clock := clock w'\<rparr>) w'"
    using se cs(5) by (simp add: same_env_def)
  show ?case
    apply (rule exI[of _ "?c # cs"])
    using cs(1,2,4) chain env call af p1 by simp
qed

lemma chain_log:
  "\<forall>i < length cs. commit_parents (cs ! i) = [(tip0 # cs) ! i] \<Longrightarrow>
   commit_log (last (tip0 # cs)) = rev cs @ commit_log tip0"
proof (induction cs arbitrary: tip0)
  case Nil
  then show ?case by simp
next
  case (Cons c cs)
  have p: "commit_parents c = [tip0]" using Cons.prems by (auto dest: spec[of _ 0])
  have "\<forall>i < length cs. commit_parents (cs ! i) = [(c # cs) ! i]"
  proof (intro allI impI)
    fix i assume "i < length cs"
    then show "commit_parents (cs ! i) = [(c # cs) ! i]"
      using Cons.prems by (auto dest: spec[of _ "Suc i"])
  qed
  from Cons.IH[OF this] have "commit_log (last (c # cs)) = rev cs @ commit_log c" .
  then show ?case using commit_log_parent[OF p] by simp
qed


section \<open>Values of the examples\<close>

lemma str_nat_42: "str_nat 42 = ''42''"
  by code_simp

lemma uuid_hex_test_value:
  "uuid_hex 0xb236f5994773477bbcd2d1b75ab1458f = ''b236f5994773477bbcd2d1b75ab1458f''"
  by code_simp

lemma AddonGitRepository_init_Inr:
  assumes "AddonGitRepository_init aid kind w = (Inr self, w0)"
  shows "self = \<lparr>git_repository_path = repo_path w aid kind, cached_git_repository = None\<rparr>
       \<and> w0 = w\<lparr>search_path := settings_ROOT w\<rparr>"
  using assms
  by (auto simp: AddonGitRepository_init_def repo_path_def raise_def split: if_splits)

lemma git_repository_uncached_open:
  assumes "git_repository self w = (Inr (h, self1), w1)" "cached_git_repository self = None"
  shows "\<not> faults w OpenRepository \<and> (\<exists>r. disk w1 h = Some (Repo r)) \<and> h = git_repository_path self
       \<and> same_env w w1 \<and> search_path w1 = search_path w"
proof (cases "disk w (git_repository_path self)")
  case None
  have "\<not> faults w OpenRepository"
    using assms None
    by (auto simp: git_repository_def is_extracted_def bind_def pygit2_Repository_def prim_def
        get_repo_def put_repo_def ret_def disk_makedirs_def init_repository_def
        split: if_splits)
  then show ?thesis
    using git_repository_Inr[OF assms(1)] assms(2) None
    by (auto simp: same_env_def)
next
  case (Some d)
  then show ?thesis
    using assms by (auto simp: git_repository_existing same_env_def split: if_splits dirstate.splits)
qed

section \<open>Opening or initializing the repository\<close>

text \<open>
  Claim C3. For an instance that \<open>AddonGitRepository.__init__\<close> has just made for an
  add-on and a package kind: when nothing exists at its path and no step fails, the first
  read of \<open>git_repository\<close> creates the directory and the repository there and puts on
  \<open>master\<close>, the default branch, a root commit with the empty tree, no parent, the robot
  as author and as committer and the message \<open>Initializing repository\<close>; when the path
  exists, the read changes nothing, and if a repository is there and it can be opened,
  the read returns its handle. After any successful read, a second instance made for the
  same add-on and kind, at any later time, reads the same handle and leaves the disk, and
  so the root commit, as it was.
\<close>

theorem git_repository_open_or_init:
  assumes "AddonGitRepository_init aid kind w = (Inr self, w0)"
  shows
    "(disk w (git_repository_path self) = None \<and> \<not> faults w MakeDirs \<and>
      \<not> faults w InitRepository \<and> \<not> faults w OpenRepository \<and>
      \<not> faults w TreeBuilderWrite \<and> \<not> faults w CreateCommit \<longrightarrow>
        git_repository self w0 =
          (Inr (git_repository_path self,
                self\<lparr>cached_git_repository := Some (git_repository_path self)\<rparr>),
           w0\<lparr>disk := (disk w)(git_repository_path self \<mapsto>
                 Repo \<lparr>branches = [''master'' \<mapsto>
                          Commit [] (robot (clock w)) (robot (clock w))
                            ''Initializing repository'' []],
                       head = ''master'', worktrees = []\<rparr>)\<rparr>))
   \<and> (disk w (git_repository_path self) \<noteq> None \<longrightarrow> snd (git_repository self w0) = w0)
   \<and> (\<forall>r. disk w (git_repository_path self) = Some (Repo r) \<and> \<not> faults w OpenRepository \<longrightarrow>
          fst (git_repository self w0) =
            Inr (git_repository_path self,
                 self\<lparr>cached_git_repository := Some (git_repository_path self)\<rparr>))
   \<and> (\<forall>h s1 w1 t self2 w2.
         git_repository self w0 = (Inr (h, s1), w1) \<and>
         AddonGitRepository_init aid kind (w1\<lparr>clock := t\<rparr>) = (Inr self2, w2) \<longrightarrow>
           git_repository self2 w2 = (Inr (h, self2\<lparr>cached_git_repository := Some h\<rparr>), w2) \<and>
           disk w2 = disk w1 \<and> git_repository_path self2 = git_repository_path self)"
proof -
  from AddonGitRepository_init_Inr[OF assms]
  have self: "self = \<lparr>git_repository_path = repo_path w aid kind, cached_git_repository = None\<rparr>"
    and w0: "w0 = w\<lparr>search_path := settings_ROOT w\<rparr>" by auto
  have c: "cached_git_repository self = None" using self by simp
  have d0: "disk w0 = disk w" "faults w0 = faults w" "clock w0 = clock w" using w0 by simp_all
  have 1: "git_repository self w0 =
          (Inr (git_repository_path self,
                self\<lparr>cached_git_repository := Some (git_repository_path self)\<rparr>),
           w0\<lparr>disk := (disk w)(git_repository_path self \<mapsto>
                 Repo \<lparr>branches = [''master'' \<mapsto>
                          Commit [] (robot (clock w)) (robot (clock w))
                            ''Initializing repository'' []],
                       head = ''master'', worktrees = []\<rparr>)\<rparr>)"
    if "disk w (git_repository_path self) = None" "\<not> faults w MakeDirs"
      "\<not> faults w InitRepository" "\<not> faults w OpenRepository"
      "\<not> faults w TreeBuilderWrite" "\<not> faults w CreateCommit"
    using git_repository_fresh[OF c, of w0] that d0
    by (simp add: fresh_repository_def root_commit_def)
  have 2: "snd (git_repository self w0) = w0" if "disk w (git_repository_path self) \<noteq> None"
  proof -
    from that obtain d where "disk w0 (git_repository_path self) = Some d" using d0 by auto
    then show ?thesis
      by (simp add: git_repository_existing[OF c] split: dirstate.splits)
  qed
  have 3: "fst (git_repository self w0) =
            Inr (git_repository_path self,
                 self\<lparr>cached_git_repository := Some (git_repository_path self)\<rparr>)"
    if "disk w (git_repository_path self) = Some (Repo r)" "\<not> faults w OpenRepository" for r
    using that d0 by (simp add: git_repository_existing[OF c])
  have 4: "git_repository self2 w2 = (Inr (h, self2\<lparr>cached_git_repository := Some h\<rparr>), w2) \<and>
           disk w2 = disk w1 \<and> git_repository_path self2 = git_repository_path self"
    if g: "git_repository self w0 = (Inr (h, s1), w1)"
      and i: "AddonGitRepository_init aid kind (w1\<lparr>clock := t\<rparr>) = (Inr self2, w2)"
    for h s1 w1 t self2 w2
  proof -
    from git_repository_uncached_open[OF g c] obtain r where
      nf: "\<not> faults w0 OpenRepository" and r: "disk w1 h = Some (Repo r)"
      and h: "h = git_repository_path self" and se: "same_env w0 w1" by auto
    from AddonGitRepository_init_Inr[OF i]
    have s2: "self2 = \<lparr>git_repository_path = repo_path (w1\<lparr>clock := t\<rparr>) aid kind,
                       cached_git_repository = None\<rparr>"
      and w2: "w2 = w1\<lparr>clock := t, search_path := settings_ROOT (w1\<lparr>clock := t\<rparr>)\<rparr>" by auto
    have p2: "git_repository_path self2 = git_repository_path self"
      using s2 self se w0 by (simp add: repo_path_def same_env_def)
    have c2: "cached_git_repository self2 = None" using s2 by simp
    have d2: "disk w2 = disk w1" "faults w2 = faults w0" using w2 se by (simp_all add: same_env_def)
    have "disk w2 (git_repository_path self2) = Some (Repo r)" using d2 r h p2 by simp
    then show ?thesis
      using git_repository_existing[OF c2, of w2 "Repo r"] nf d2 p2 h by simp
  qed
  show ?thesis using 1 2 3 4 by blast
qed

lemma ex_repo_path: "repo_path ex_world 42 ''addon'' = ''/git/42/addon''"
  by (simp add: repo_path_def ex_world_def os_path_join_def str_nat_42)

theorem git_repository_open_or_init_witness:
  "AddonGitRepository_init 42 ''addon'' ex_world =
     (Inr \<lparr>git_repository_path = ''/git/42/addon'', cached_git_repository = None\<rparr>,
      ex_world\<lparr>search_path := ''/app''\<rparr>)
   \<and> disk ex_world ''/git/42/addon'' = None
   \<and> fst (git_repository \<lparr>git_repository_path = ''/git/42/addon'', cached_git_repository = None\<rparr>
             (ex_world\<lparr>search_path := ''/app''\<rparr>))
       = Inr (''/git/42/addon'',
              \<lparr>git_repository_path = ''/git/42/addon'',
               cached_git_repository = Some ''/git/42/addon''\<rparr>)
   \<and> branch_tip (snd (git_repository
                        \<lparr>git_repository_path = ''/git/42/addon'', cached_git_repository = None\<rparr>
                        (ex_world\<lparr>search_path := ''/app''\<rparr>))) ''/git/42/addon'' ''master''
       = Some (root_commit 1000)
   \<and> git_repository \<lparr>git_repository_path = ''/git/42/addon'', cached_git_repository = None\<rparr>
        ((snd (git_repository
                 \<lparr>git_repository_path = ''/git/42/addon'', cached_git_repository = None\<rparr>
                 (ex_world\<lparr>search_path := ''/app''\<rparr>)))\<lparr>clock := 2000\<rparr>)
       = (Inr (''/git/42/addon'',
               \<lparr>git_repository_path = ''/git/42/addon'',
                cached_git_repository = Some ''/git/42/addon''\<rparr>),
          (snd (git_repository
                 \<lparr>git_repository_path = ''/git/42/addon'', cached_git_repository = None\<rparr>
                 (ex_world\<lparr>search_path := ''/app''\<rparr>)))\<lparr>clock := 2000\<rparr>)"
proof -
  let ?self = "\<lparr>git_repository_path = ''/git/42/addon'', cached_git_repository = None\<rparr>"
  let ?w0 = "ex_world\<lparr>search_path := ''/app''\<rparr>"
  let ?w1 = "?w0\<lparr>disk := (disk ex_world)(''/git/42/addon'' \<mapsto>
                 Repo \<lparr>branches = [''master'' \<mapsto>
                          Commit [] (robot (clock ex_world)) (robot (clock ex_world))
                            ''Initializing repository'' []],
                       head = ''master'', worktrees = []\<rparr>)\<rparr>"
  have i: "AddonGitRepository_init 42 ''addon'' ex_world = (Inr ?self, ?w0)"
    using ex_repo_path by (simp add: AddonGitRepository_init_def repo_path_def) (simp add: ex_world_def)
  note th = git_repository_open_or_init[OF i]
  have g: "git_repository ?self ?w0 =
      (Inr (''/git/42/addon'', ?self\<lparr>cached_git_repository := Some ''/git/42/addon''\<rparr>), ?w1)"
    using th by (simp add: ex_world_def)
  have i2: "AddonGitRepository_init 42 ''addon'' (?w1\<lparr>clock := 2000\<rparr>) = (Inr ?self, ?w1\<lparr>clock := 2000\<rparr>)"
    using ex_repo_path by (simp add: AddonGitRepository_init_def repo_path_def) (simp add: ex_world_def)
  have g2: "git_repository ?self (?w1\<lparr>clock := 2000\<rparr>) =
      (Inr (''/git/42/addon'', ?self\<lparr>cached_git_repository := Some ''/git/42/addon''\<rparr>), ?w1\<lparr>clock := 2000\<rparr>)"
    using th g i2 by blast
  show ?thesis
    using i g g2 by (simp add: branch_tip_def root_commit_def) (simp add: ex_world_def)
qed

section \<open>Identities of the commits\<close>



section \<open>Entering the sandbox\<close>

lemma git_repository_same_env:
  assumes "git_repository self w = (Inr (h, self1), w1)"
  shows "same_env w w1"
  using git_repository_Inr[OF assms] by (auto simp: same_env_def)

lemma commit_through_worktree_after_handle:
  assumes "git_repository self w = (Inr (h, self1), w1)"
  shows "commit_through_worktree self src msg author br w = in_worktree h self1 src msg author br w1"
  by (simp add: commit_through_worktree_alt bind_apply assms)

lemma sandbox_enter_ok:
  assumes r: "disk w h = Some (Repo r)" "branches r (head r) = Some hc" "commit_tree hc = []"
      "branches r (uuid_hex (uuids w (uuid_next w))) = None"
      "uuid_hex (uuids w (uuid_next w)) \<notin> set (worktrees r)"
    and nf: "\<not> faults w MkdTemp" "\<not> faults w AddWorktree" "\<not> faults w OpenRepository"
      "\<not> faults w MakeDirs"
  shows "\<exists>w2 w3.
           TemporaryWorktree_init h w =
             (Inr (new_worktree h (uuid_hex (uuids w (uuid_next w))) (tmp_next w)), w2) \<and>
           TemporaryWorktree_enter (new_worktree h (uuid_hex (uuids w (uuid_next w))) (tmp_next w)) w2 =
             (Inr ((new_worktree h (uuid_hex (uuids w (uuid_next w))) (tmp_next w))
                     \<lparr>wt_obj := Some (uuid_hex (uuids w (uuid_next w))), wt_repo := Some h\<rparr>), w3) \<and>
           tmp w3 (tmp_next w) =
             Some [FsEntry (uuid_hex (uuids w (uuid_next w)))
                     (Dir [FsEntry ''.git'' (File (uuid_hex (uuids w (uuid_next w)))),
                           FsEntry ''extracted'' (Dir [])])] \<and>
           frame w w3 \<and>
           disk w3 = (disk w)(h \<mapsto> Repo (r\<lparr>branches := (branches r)(uuid_hex (uuids w (uuid_next w)) \<mapsto> hc),
                                           worktrees := uuid_hex (uuids w (uuid_next w)) # worktrees r\<rparr>))"
proof -
  let ?n = "uuid_hex (uuids w (uuid_next w))"
  let ?td = "tmp_next w"
  let ?wt = "new_worktree h ?n ?td"
  let ?w2 = "w\<lparr>tmp := (tmp w)(?td \<mapsto> []), tmp_next := Suc ?td, uuid_next := Suc (uuid_next w)\<rparr>"
  let ?wk = "?wt\<lparr>wt_obj := Some ?n, wt_repo := Some h\<rparr>"
  have n: "?n \<noteq> []" "CHR ''/'' \<notin> set ?n" by (simp_all add: uuid_hex_nonempty uuid_hex_noslash)
  have i: "TemporaryWorktree_init h w = (Inr ?wt, ?w2)" using nf(1) by (simp add: init_apply)
  have f2: "frame w ?w2" by (simp add: frame_def same_env_def)
  have "\<exists>w'. TemporaryWorktree_enter ?wt ?w2 = (Inr ?wk, w')
         \<and> tmp w' ?td = Some [FsEntry ?n (Dir [FsEntry ''.git'' (File ?n),
                                              FsEntry ''extracted'' (Dir [])])]"
    by (rule enter_ok[OF n, of ?w2 h r hc]) (use r nf in simp_all)
  then obtain w3 where en: "TemporaryWorktree_enter ?wt ?w2 = (Inr ?wk, w3)"
    and t3: "tmp w3 ?td = Some [FsEntry ?n (Dir [FsEntry ''.git'' (File ?n),
                                              FsEntry ''extracted'' (Dir [])])]" by blast
  from en obtain r' hc' where
    r': "disk ?w2 (wt_git_repository ?wt) = Some (Repo r')"
    and hc': "branches r' (head r') = Some hc'"
    and d3: "disk w3 = (disk ?w2)(wt_git_repository ?wt \<mapsto>
                  Repo (r'\<lparr>branches := (branches r')(wt_name ?wt \<mapsto> hc'),
                          worktrees := wt_name ?wt # worktrees r'\<rparr>))"
    and f3: "frame ?w2 w3"
    by (rule enter_Inr)
  have rr: "r' = r" "hc' = hc" using r' hc' r by (simp_all add: new_worktree_sel)
  have d3': "disk w3 = (disk w)(h \<mapsto> Repo (r\<lparr>branches := (branches r)(?n \<mapsto> hc),
                                           worktrees := ?n # worktrees r\<rparr>))"
    using d3 rr by (simp add: new_worktree_sel)
  show ?thesis
    using i en t3 frame_trans[OF f2 f3] d3' by blast
qed

text \<open>Facts of the example state.\<close>

lemma ex_uuid: "uuid_hex (uuids ex_repo_world i) = ''b236f5994773477bbcd2d1b75ab1458f''"
  by (simp add: ex_repo_world_def ex_world_def uuid_hex_test_value)

lemma ex_files_a:
  "list_all (\<lambda>f. os_path_basename f \<noteq> ''.git'')
     (sandbox_files ''b236f5994773477bbcd2d1b75ab1458f''
        [FsEntry ''manifest.json'' (File ''{}''), FsEntry ''README.md'' (File ''hello'')])"
  by (simp add: sandbox_files_def os_path_join_def os_path_basename_def EXTRACTED_PREFIX_def)

lemma ex_tree_a:
  "index_entries [FsEntry ''extracted''
      (Dir [FsEntry ''manifest.json'' (File ''{}''), FsEntry ''README.md'' (File ''hello'')])]
   = [TreeEntry ''extracted'' (Tree [TreeEntry ''README.md'' (Blob ''hello''),
                                     TreeEntry ''manifest.json'' (Blob ''{}'')])]"
  by simp

lemma ex_self_handle:
  "git_repository ex_self w = (Inr (''/git/42/addon'', ex_self), w)"
  by (simp add: git_repository_cached ex_self_def)

text \<open>The commit of the first upload of the example, under any plan of faults that lets
  it through.\<close>

lemma ex_run_ok:
  assumes w: "w = ex_repo_world\<lparr>faults := fl\<rparr>"
    and nf: "\<not> fl MkdTemp" "\<not> fl AddWorktree" "\<not> fl OpenRepository"
      "\<not> fl MakeDirs" "\<not> fl Extract" "\<not> fl IndexRead"
      "\<not> fl IndexAddAll" "\<not> fl IndexWrite" "\<not> fl WriteTree"
      "\<not> fl CreateCommit" "\<not> fl SetTarget"
    and nc: "\<not> fl Rmtree" "\<not> fl Prune" "\<not> fl BranchDelete"
  shows "\<exists>w'. commit_through_worktree ex_self ''/up/a.xpi'' msg author ex_branch w =
           (Inr (Commit [TreeEntry ''extracted'' (Tree [TreeEntry ''README.md'' (Blob ''hello''),
                                     TreeEntry ''manifest.json'' (Blob ''{}'')])]
                   (author_sig author 1000) (robot 1000) msg [root_commit 1000], ex_self), w')"
proof -
  let ?r = "\<lparr>branches = [''master'' \<mapsto> root_commit 1000, ''listed'' \<mapsto> root_commit 1000],
             head = ''master'', worktrees = []\<rparr>"
  have u: "uuid_hex (uuids w (uuid_next w)) = ''b236f5994773477bbcd2d1b75ab1458f''"
    using w ex_uuid[of "uuid_next w"] by (simp add: ex_repo_world_def)
  have "\<exists>w'. in_worktree ''/git/42/addon'' ex_self ''/up/a.xpi'' msg author ex_branch w =
           (Inr (Commit (index_entries [FsEntry ''extracted''
                    (Dir [FsEntry ''manifest.json'' (File ''{}''), FsEntry ''README.md'' (File ''hello'')])])
                   (author_sig author (clock w)) (robot (clock w)) msg [target ex_branch], ex_self), w')"
    apply (rule in_worktree_ok[where r = ?r and hc = "root_commit 1000"])
    using w nf nc ex_files_a
    by (simp_all add: uuid_hex_test_value ex_repo_world_def ex_world_def ex_branch_def
        root_commit_def)
  then show ?thesis
    using w by (simp add: commit_through_worktree_after_handle[OF ex_self_handle] ex_tree_a
        ex_branch_def ex_repo_world_def ex_world_def del: index_entries.simps)
qed



section \<open>The environment across the sandbox\<close>

lemma sandbox_same_env:
  assumes g: "git_repository self w = (Inr (h, self1), w1)"
    and i: "TemporaryWorktree_init h w1 = (Inr wt, w2)"
    and en: "TemporaryWorktree_enter wt w2 = (Inr worktree, w3)"
  shows "same_env w w3"
proof -
  have a: "same_env w w1" using g by (rule git_repository_same_env)
  have b: "same_env w1 w2" using init_Inr[OF i] by (simp add: frame_def)
  from en have c: "same_env w2 w3" by (rule enter_Inr) (simp add: frame_def)
  show ?thesis using a b c by (blast intro: same_env_trans)
qed

lemma commit_body_same_env:
  assumes "commit_body self wt p msg author br w = (r, w')"
  shows "same_env w w'"
proof (cases r)
  case (Inl e)
  then show ?thesis using commit_body_Inl[of self wt p msg author br w e w'] assms
    by (simp add: fs_only_def)
next
  case (Inr c)
  with assms have "commit_body self wt p msg author br w = (Inr c, w')" by simp
  then show ?thesis
    by (rule commit_body_Inr) (simp add: fs_only_def same_env_def)
qed

lemma exit_fault_rmtree:
  "faults w Rmtree \<Longrightarrow> TemporaryWorktree_exit wt w = (Inl (Fault Rmtree), w)"
  by (simp add: TemporaryWorktree_exit_def shutil_rmtree_temp_def bind_apply prim_def)

lemma exit_fault_prune:
  assumes "wt_obj wt = Some n" "temp_directory wt = td" "tmp w td \<noteq> None"
    "\<not> faults w Rmtree" "faults w Prune"
  shows "TemporaryWorktree_exit wt w = (Inl (Fault Prune), w\<lparr>tmp := (tmp w)(td := None)\<rparr>)"
  using assms
  by (auto simp: TemporaryWorktree_exit_def shutil_rmtree_temp_def bind_apply prim_def
      worktree_prune_def)

section \<open>Failures inside the sandbox\<close>


text \<open>The sandbox of the example.\<close>

lemma ex_enter:
  assumes w: "w = ex_repo_world\<lparr>faults := fl\<rparr>"
    and nf: "\<not> fl MkdTemp" "\<not> fl AddWorktree" "\<not> fl OpenRepository" "\<not> fl MakeDirs"
  shows "\<exists>w2 w3.
           TemporaryWorktree_init ''/git/42/addon'' w =
             (Inr (new_worktree ''/git/42/addon'' ''b236f5994773477bbcd2d1b75ab1458f'' 0), w2) \<and>
           TemporaryWorktree_enter
               (new_worktree ''/git/42/addon'' ''b236f5994773477bbcd2d1b75ab1458f'' 0) w2 =
             (Inr ((new_worktree ''/git/42/addon'' ''b236f5994773477bbcd2d1b75ab1458f'' 0)
                     \<lparr>wt_obj := Some ''b236f5994773477bbcd2d1b75ab1458f'',
                      wt_repo := Some ''/git/42/addon''\<rparr>), w3) \<and>
           tmp w3 0 =
             Some [FsEntry ''b236f5994773477bbcd2d1b75ab1458f''
                     (Dir [FsEntry ''.git'' (File ''b236f5994773477bbcd2d1b75ab1458f''),
                           FsEntry ''extracted'' (Dir [])])] \<and>
           same_env w w3"
proof -
  let ?r = "\<lparr>branches = [''master'' \<mapsto> root_commit 1000, ''listed'' \<mapsto> root_commit 1000],
             head = ''master'', worktrees = []\<rparr>"
  have u: "uuid_hex (uuids w (uuid_next w)) = ''b236f5994773477bbcd2d1b75ab1458f''"
    using w ex_uuid[of "uuid_next w"] by (simp add: ex_repo_world_def)
  have t: "tmp_next w = 0" using w by (simp add: ex_repo_world_def ex_world_def)
  have "disk w ''/git/42/addon'' = Some (Repo ?r)" "branches ?r (head ?r) = Some (root_commit 1000)"
    "commit_tree (root_commit 1000) = []"
    "branches ?r (uuid_hex (uuids w (uuid_next w))) = None"
    "uuid_hex (uuids w (uuid_next w)) \<notin> set (worktrees ?r)"
    "\<not> faults w MkdTemp" "\<not> faults w AddWorktree" "\<not> faults w OpenRepository"
    "\<not> faults w MakeDirs"
    using w nf
    by (simp_all add: uuid_hex_test_value ex_repo_world_def ex_world_def root_commit_def)
  from sandbox_enter_ok[OF this] show ?thesis
    unfolding u t by (auto simp: frame_def)
qed


section \<open>Runs of the example\<close>

lemma ex_body_ok:
  assumes w: "w = ex_repo_world\<lparr>faults := fl\<rparr>"
    and nf: "\<not> fl MkdTemp" "\<not> fl AddWorktree" "\<not> fl OpenRepository"
      "\<not> fl MakeDirs" "\<not> fl Extract" "\<not> fl IndexRead"
      "\<not> fl IndexAddAll" "\<not> fl IndexWrite" "\<not> fl WriteTree"
      "\<not> fl CreateCommit" "\<not> fl SetTarget"
  shows "\<exists>wt w2 worktree w3 w4.
           TemporaryWorktree_init ''/git/42/addon'' w = (Inr wt, w2) \<and>
           TemporaryWorktree_enter wt w2 = (Inr worktree, w3) \<and>
           commit_body self1 worktree ''/up/a.xpi'' msg author ex_branch w3 =
             (Inr (Commit [TreeEntry ''extracted'' (Tree [TreeEntry ''README.md'' (Blob ''hello''),
                                     TreeEntry ''manifest.json'' (Blob ''{}'')])]
                     (author_sig author 1000) (robot 1000) msg [root_commit 1000]), w4) \<and>
           wt_obj worktree = Some ''b236f5994773477bbcd2d1b75ab1458f'' \<and>
           temp_directory worktree = 0 \<and> faults w4 = fl \<and> tmp w4 0 \<noteq> None"
proof -
  let ?r = "\<lparr>branches = [''master'' \<mapsto> root_commit 1000, ''listed'' \<mapsto> root_commit 1000],
             head = ''master'', worktrees = []\<rparr>"
  let ?c = "[FsEntry ''manifest.json'' (File ''{}''), FsEntry ''README.md'' (File ''hello'')]"
  have u: "uuid_hex (uuids w (uuid_next w)) = ''b236f5994773477bbcd2d1b75ab1458f''"
    using w ex_uuid[of "uuid_next w"] by (simp add: ex_repo_world_def)
  have f: "tmp_next w = 0" "clock w = 1000" "faults w = fl" "target ex_branch = root_commit 1000"
    using w by (simp_all add: ex_repo_world_def ex_world_def ex_branch_def)
  have "disk w ''/git/42/addon'' = Some (Repo ?r)"
    "branches ?r (head ?r) = Some (root_commit 1000)" "commit_tree (root_commit 1000) = []"
    "branches ?r (uuid_hex (uuids w (uuid_next w))) = None"
    "uuid_hex (uuids w (uuid_next w)) \<notin> set (worktrees ?r)"
    "branch_repo ex_branch = ''/git/42/addon''" "branches ?r (branch_name ex_branch) \<noteq> None"
    "uploads w ''/up/a.xpi'' = Some (Archive ?c)"
    "list_all (\<lambda>f. os_path_basename f \<noteq> ''.git'')
         (sandbox_files (uuid_hex (uuids w (uuid_next w))) ?c)"
    "\<not> has_dotgit ?c"
    "\<not> faults w MkdTemp" "\<not> faults w AddWorktree" "\<not> faults w OpenRepository"
    "\<not> faults w MakeDirs" "\<not> faults w Extract" "\<not> faults w IndexRead"
    "\<not> faults w IndexAddAll" "\<not> faults w IndexWrite" "\<not> faults w WriteTree"
    "\<not> faults w CreateCommit" "\<not> faults w SetTarget"
    using w nf ex_files_a
    by (simp_all add: uuid_hex_test_value ex_repo_world_def ex_world_def ex_branch_def
        root_commit_def)
  from sandbox_run_ok[OF this, of self1 msg author] show ?thesis
    unfolding u f ex_tree_a by blast
qed

lemma ex_release_fault:
  assumes w: "w = ex_repo_world\<lparr>faults := fl\<rparr>"
    and nf: "\<not> fl MkdTemp" "\<not> fl AddWorktree" "\<not> fl OpenRepository"
      "\<not> fl MakeDirs" "\<not> fl Extract" "\<not> fl IndexRead"
      "\<not> fl IndexAddAll" "\<not> fl IndexWrite" "\<not> fl WriteTree"
      "\<not> fl CreateCommit" "\<not> fl SetTarget"
    and rm: "fl Rmtree"
  shows "\<exists>w'. commit_through_worktree ex_self ''/up/a.xpi'' msg author ex_branch w =
                (Inl (Fault Rmtree), w') \<and>
              branch_tip w' ''/git/42/addon'' ''listed'' =
                Some (Commit [TreeEntry ''extracted'' (Tree [TreeEntry ''README.md'' (Blob ''hello''),
                                     TreeEntry ''manifest.json'' (Blob ''{}'')])]
                     (author_sig author 1000) (robot 1000) msg [root_commit 1000])"
proof -
  let ?c = "Commit [TreeEntry ''extracted'' (Tree [TreeEntry ''README.md'' (Blob ''hello''),
                                     TreeEntry ''manifest.json'' (Blob ''{}'')])]
                     (author_sig author 1000) (robot 1000) msg [root_commit 1000]"
  from ex_body_ok[OF w nf, of ex_self msg author] obtain wt w2 worktree w3 w4 where
    i: "TemporaryWorktree_init ''/git/42/addon'' w = (Inr wt, w2)"
    and en: "TemporaryWorktree_enter wt w2 = (Inr worktree, w3)"
    and b: "commit_body ex_self worktree ''/up/a.xpi'' msg author ex_branch w3 = (Inr ?c, w4)"
    and f4: "faults w4 = fl" by blast
  have x: "TemporaryWorktree_exit worktree w4 = (Inl (Fault Rmtree), w4)"
    using rm f4 by (simp add: exit_fault_rmtree)
  from in_worktree_release_fails[OF i en b x]
  show ?thesis
    by (simp add: commit_through_worktree_after_handle[OF ex_self_handle] ex_branch_def)
qed

lemma ex_corrupt:
  assumes w: "w = ex_repo_world\<lparr>faults := fl\<rparr>"
    and nf: "\<not> fl MkdTemp" "\<not> fl AddWorktree" "\<not> fl OpenRepository" "\<not> fl MakeDirs"
      "\<not> fl Extract"
  shows "(\<not> fl Rmtree \<and> \<not> fl Prune \<and> \<not> fl BranchDelete \<longrightarrow>
           fst (commit_through_worktree ex_self ''/up/bad.xpi'' msg author ex_branch w)
             = Inl (ExtractionError ''/up/bad.xpi''))
       \<and> (fl Rmtree \<longrightarrow>
           fst (commit_through_worktree ex_self ''/up/bad.xpi'' msg author ex_branch w)
             = Inl (Fault Rmtree))"
proof -
  let ?wt = "new_worktree ''/git/42/addon'' ''b236f5994773477bbcd2d1b75ab1458f'' 0"
  let ?wk = "?wt\<lparr>wt_obj := Some ''b236f5994773477bbcd2d1b75ab1458f'',
                  wt_repo := Some ''/git/42/addon''\<rparr>"
  from ex_enter[OF w nf(1-4)] obtain w2 w3 where
    i: "TemporaryWorktree_init ''/git/42/addon'' w = (Inr ?wt, w2)"
    and en: "TemporaryWorktree_enter ?wt w2 = (Inr ?wk, w3)"
    and se: "same_env w w3" by auto
  have f: "faults w = fl" "faults w3 = fl" using w se by (simp_all add: same_env_def)
  have "uploads w3 ''/up/bad.xpi'' = Some Corrupt" "\<not> faults w3 Extract"
    using se w nf by (simp_all add: same_env_def ex_repo_world_def ex_world_def)
  then have b: "commit_body ex_self ?wk ''/up/bad.xpi'' msg author ex_branch w3 =
           (Inl (ExtractionError ''/up/bad.xpi''), w3)"
    by (rule commit_body_corrupt)
  have 1: "fst (commit_through_worktree ex_self ''/up/bad.xpi'' msg author ex_branch w)
             = Inl (ExtractionError ''/up/bad.xpi'')"
    if "\<not> fl Rmtree \<and> \<not> fl Prune \<and> \<not> fl BranchDelete"
    using in_worktree_body_fails[OF i en b] that f
    by (auto simp: commit_through_worktree_after_handle[OF ex_self_handle])
  have 2: "fst (commit_through_worktree ex_self ''/up/bad.xpi'' msg author ex_branch w)
             = Inl (Fault Rmtree)" if "fl Rmtree"
  proof -
    have x: "TemporaryWorktree_exit ?wk w3 = (Inl (Fault Rmtree), w3)"
      using that f by (simp add: exit_fault_rmtree)
    from in_worktree_release_fails[OF i en b x] show ?thesis
      by (simp add: commit_through_worktree_after_handle[OF ex_self_handle])
  qed
  show ?thesis using 1 2 by blast
qed

section \<open>Errors of the release\<close>

text \<open>
  Claim C6, as the code has it. \<open>TemporaryWorktree.__exit__\<close> catches nothing and logs
  nothing. Once the sandbox is entered, the outcome of \<open>commit_through_worktree\<close> is the
  error of the release when the release raises, and the outcome of the body only when it
  does not. When the release raises, the branches stay as the body left them: a commit that
  the body has made stays on its branch although the call raises. The release stops at its
  first failing step: when the removal of the temporary directory fails, nothing is
  released.
\<close>

theorem release_error_replaces_outcome:
  assumes g: "git_repository self w = (Inr (h, self1), w1)"
    and i: "TemporaryWorktree_init h w1 = (Inr wt, w2)"
    and en: "TemporaryWorktree_enter wt w2 = (Inr worktree, w3)"
    and b: "commit_body self1 worktree src msg author br w3 = (r, w4)"
    and x: "TemporaryWorktree_exit worktree w4 = (rx, w5)"
  shows "commit_through_worktree self src msg author br w =
           (case rx of
              Inl e \<Rightarrow> Inl e
            | Inr u \<Rightarrow> (case r of Inl e \<Rightarrow> Inl e | Inr c \<Rightarrow> Inr (c, self1)), w5)
       \<and> (\<forall>e. rx = Inl e \<longrightarrow> branch_tip w5 = branch_tip w4)
       \<and> (\<forall>e c. rx = Inl e \<and> r = Inr c \<longrightarrow>
             branch_tip w5 (branch_repo br) (branch_name br) = Some c)
       \<and> (faults w Rmtree \<longrightarrow> rx = Inl (Fault Rmtree) \<and> w5 = w4)"
proof -
  have eq: "commit_through_worktree self src msg author br w
              = in_worktree h self1 src msg author br w1"
    using g by (rule commit_through_worktree_after_handle)
  have 1: "commit_through_worktree self src msg author br w =
           (case rx of
              Inl e \<Rightarrow> Inl e
            | Inr u \<Rightarrow> (case r of Inl e \<Rightarrow> Inl e | Inr c \<Rightarrow> Inr (c, self1)), w5)"
    unfolding eq by (simp add: in_worktree_apply i en b x split: sum.splits)
  have 2: "branch_tip w5 = branch_tip w4
      \<and> (\<forall>c. r = Inr c \<longrightarrow> branch_tip w5 (branch_repo br) (branch_name br) = Some c)"
    if "rx = Inl e" for e
    using in_worktree_release_fails[OF i en b x[unfolded that]] by blast
  have 3: "rx = Inl (Fault Rmtree) \<and> w5 = w4" if "faults w Rmtree"
  proof -
    have "same_env w w3" using g i en by (rule sandbox_same_env)
    moreover have "same_env w3 w4" using b by (rule commit_body_same_env)
    ultimately have "faults w4 Rmtree" using that by (simp add: same_env_def)
    from exit_fault_rmtree[OF this, of worktree] x show ?thesis by simp
  qed
  show ?thesis using 1 2 3 by blast
qed

theorem release_error_replaces_outcome_witness:
  "fst (commit_through_worktree ex_self ''/up/a.xpi'' ''rev 1'' None ex_branch
          (ex_repo_world\<lparr>faults := (\<lambda>s. s = Prune)\<rparr>)) = Inl (Fault Prune)
   \<and> branch_tip (snd (commit_through_worktree ex_self ''/up/a.xpi'' ''rev 1'' None ex_branch
          (ex_repo_world\<lparr>faults := (\<lambda>s. s = Prune)\<rparr>))) ''/git/42/addon'' ''listed''
       = Some (Commit [TreeEntry ''extracted'' (Tree [TreeEntry ''README.md'' (Blob ''hello''),
                                     TreeEntry ''manifest.json'' (Blob ''{}'')])]
                 (robot 1000) (robot 1000) ''rev 1'' [root_commit 1000])"
proof -
  let ?w = "ex_repo_world\<lparr>faults := (\<lambda>s. s = Prune)\<rparr>"
  let ?c = "Commit [TreeEntry ''extracted'' (Tree [TreeEntry ''README.md'' (Blob ''hello''),
                                     TreeEntry ''manifest.json'' (Blob ''{}'')])]
                     (author_sig None 1000) (robot 1000) ''rev 1'' [root_commit 1000]"
  have "\<exists>wt w2 worktree w3 w4.
           TemporaryWorktree_init ''/git/42/addon'' ?w = (Inr wt, w2) \<and>
           TemporaryWorktree_enter wt w2 = (Inr worktree, w3) \<and>
           commit_body ex_self worktree ''/up/a.xpi'' ''rev 1'' None ex_branch w3 = (Inr ?c, w4) \<and>
           wt_obj worktree = Some ''b236f5994773477bbcd2d1b75ab1458f'' \<and>
           temp_directory worktree = 0 \<and> faults w4 = (\<lambda>s. s = Prune) \<and> tmp w4 0 \<noteq> None"
    by (rule ex_body_ok[where fl = "\<lambda>s. s = Prune"]) simp_all
  then obtain wt w2 worktree w3 w4 where
    i: "TemporaryWorktree_init ''/git/42/addon'' ?w = (Inr wt, w2)"
    and en: "TemporaryWorktree_enter wt w2 = (Inr worktree, w3)"
    and b: "commit_body ex_self worktree ''/up/a.xpi'' ''rev 1'' None ex_branch w3 = (Inr ?c, w4)"
    and o: "wt_obj worktree = Some ''b236f5994773477bbcd2d1b75ab1458f''"
    and td: "temp_directory worktree = 0"
    and f4: "faults w4 = (\<lambda>s. s = Prune)" and t4: "tmp w4 0 \<noteq> None" by blast
  have x: "TemporaryWorktree_exit worktree w4 = (Inl (Fault Prune), w4\<lparr>tmp := (tmp w4)(0 := None)\<rparr>)"
    by (rule exit_fault_prune[OF o td]) (simp_all add: t4 f4)
  note th = release_error_replaces_outcome[OF ex_self_handle i en b x]
  have r: "commit_through_worktree ex_self ''/up/a.xpi'' ''rev 1'' None ex_branch ?w =
             (Inl (Fault Prune), w4\<lparr>tmp := (tmp w4)(0 := None)\<rparr>)"
    using th[THEN conjunct1] by simp
  have t: "branch_tip (w4\<lparr>tmp := (tmp w4)(0 := None)\<rparr>) (branch_repo ex_branch)
              (branch_name ex_branch) = Some ?c"
    using th[THEN conjunct2, THEN conjunct2, THEN conjunct1] by simp
  show ?thesis using t unfolding r by (simp add: ex_branch_def author_sig_def)
qed

text \<open>
  Claim C6, as the specification has it, fails. The same call on the same state returns
  the commit when nothing fails, and raises the error of the release when the removal of
  the temporary directory fails, with the branch already at the new commit; and the call
  on an upload that cannot be read, which raises the extraction error when the release
  works, raises the error of the release instead when the release fails.
\<close>

theorem release_error_masks_outcome:
  "fst (commit_through_worktree ex_self ''/up/a.xpi'' ''rev 1'' None ex_branch ex_repo_world)
     = Inr (Commit [TreeEntry ''extracted'' (Tree [TreeEntry ''README.md'' (Blob ''hello''),
                                     TreeEntry ''manifest.json'' (Blob ''{}'')])]
              (robot 1000) (robot 1000) ''rev 1'' [root_commit 1000], ex_self)
   \<and> fst (commit_through_worktree ex_self ''/up/a.xpi'' ''rev 1'' None ex_branch
          (ex_repo_world\<lparr>faults := (\<lambda>s. s = Rmtree)\<rparr>)) = Inl (Fault Rmtree)
   \<and> branch_tip (snd (commit_through_worktree ex_self ''/up/a.xpi'' ''rev 1'' None ex_branch
          (ex_repo_world\<lparr>faults := (\<lambda>s. s = Rmtree)\<rparr>))) ''/git/42/addon'' ''listed''
       = Some (Commit [TreeEntry ''extracted'' (Tree [TreeEntry ''README.md'' (Blob ''hello''),
                                     TreeEntry ''manifest.json'' (Blob ''{}'')])]
                 (robot 1000) (robot 1000) ''rev 1'' [root_commit 1000])
   \<and> fst (commit_through_worktree ex_self ''/up/bad.xpi'' ''rev 1'' None ex_branch ex_repo_world)
       = Inl (ExtractionError ''/up/bad.xpi'')
   \<and> fst (commit_through_worktree ex_self ''/up/bad.xpi'' ''rev 1'' None ex_branch
          (ex_repo_world\<lparr>faults := (\<lambda>s. s = Rmtree)\<rparr>)) = Inl (Fault Rmtree)"
proof -
  let ?w = "ex_repo_world\<lparr>faults := (\<lambda>s. s = Rmtree)\<rparr>"
  have e: "ex_repo_world = ex_repo_world\<lparr>faults := (\<lambda>s. False)\<rparr>"
    by (simp add: ex_repo_world_def ex_world_def)
  have 1: "fst (commit_through_worktree ex_self ''/up/a.xpi'' ''rev 1'' None ex_branch ex_repo_world)
     = Inr (Commit [TreeEntry ''extracted'' (Tree [TreeEntry ''README.md'' (Blob ''hello''),
                                     TreeEntry ''manifest.json'' (Blob ''{}'')])]
              (robot 1000) (robot 1000) ''rev 1'' [root_commit 1000], ex_self)"
    using ex_run_ok[OF e, of "''rev 1''" None] by (auto simp: author_sig_def)
  have "\<exists>w'. commit_through_worktree ex_self ''/up/a.xpi'' ''rev 1'' None ex_branch ?w =
                (Inl (Fault Rmtree), w') \<and>
              branch_tip w' ''/git/42/addon'' ''listed'' =
                Some (Commit [TreeEntry ''extracted'' (Tree [TreeEntry ''README.md'' (Blob ''hello''),
                                     TreeEntry ''manifest.json'' (Blob ''{}'')])]
                     (author_sig None 1000) (robot 1000) ''rev 1'' [root_commit 1000])"
    by (rule ex_release_fault[where fl = "\<lambda>s. s = Rmtree"]) simp_all
  then have 2: "fst (commit_through_worktree ex_self ''/up/a.xpi'' ''rev 1'' None ex_branch ?w)
        = Inl (Fault Rmtree)"
    and 3: "branch_tip (snd (commit_through_worktree ex_self ''/up/a.xpi'' ''rev 1'' None ex_branch
          ?w)) ''/git/42/addon'' ''listed''
       = Some (Commit [TreeEntry ''extracted'' (Tree [TreeEntry ''README.md'' (Blob ''hello''),
                                     TreeEntry ''manifest.json'' (Blob ''{}'')])]
                 (robot 1000) (robot 1000) ''rev 1'' [root_commit 1000])"
    by (auto simp: author_sig_def)
  have 4: "fst (commit_through_worktree ex_self ''/up/bad.xpi'' ''rev 1'' None ex_branch ex_repo_world)
       = Inl (ExtractionError ''/up/bad.xpi'')"
    using ex_corrupt[OF e, of "''rev 1''" None] by simp
  have 5: "fst (commit_through_worktree ex_self ''/up/bad.xpi'' ''rev 1'' None ex_branch ?w)
       = Inl (Fault Rmtree)"
    using ex_corrupt[of ?w "\<lambda>s. s = Rmtree" "''rev 1''" None] by simp
  show ?thesis using 1 2 3 4 5 by blast
qed

end
